theory Spec2Isabelle
  imports Main
begin

section \<open>Warranty intake worker: the claim counter and the request handler\<close>

text \<open>
  A shallow embedding of \<^verbatim>\<open>warranty-form-handler.js\<close>: the Durable Object
  \<^verbatim>\<open>ClaimCounter\<close> and the worker's \<^verbatim>\<open>fetch\<close> handler with its helpers.
  Promises that reject and statements that throw are values of a sum type; everything
  outside the file (the object's storage, the HubSpot and Brevo endpoints, the random
  trace id, the Unicode case mappings) is explicit: a store that is passed through, a
  list of the calls made, and a record of what the outside gives.

  A JavaScript string is its list of UTF-16 code units. Texts that the source writes
  out (property names, header names, methods, fixed messages) are Isabelle strings,
  turned into code units by \<open>str\<close>. A number is an integer that is a double: the
  counter's \<^verbatim>\<open>n += 1\<close> is the double-precision sum, rounded to the nearest double.
  Console output is not modelled.
\<close>

subsection \<open>Strings\<close>

type_synonym jstring = "nat list"

definition str :: "string \<Rightarrow> jstring" where
  "str s = map of_char s"

text \<open>
  White space as \<^verbatim>\<open>String.prototype.trim\<close> and the class \<^verbatim>\<open>\s\<close> know it: the
  WhiteSpace and LineTerminator code points of ECMAScript (tab, line feed, vertical
  tab, form feed, carriage return, space, no-break space, U+1680, U+2000 to U+200A,
  U+2028, U+2029, U+202F, U+205F, U+3000 and U+FEFF).
\<close>

definition is_space :: "nat \<Rightarrow> bool" where
  "is_space c =
     (c = 0x09 \<or> c = 0x0A \<or> c = 0x0B \<or> c = 0x0C \<or> c = 0x0D \<or> c = 0x20 \<or> c = 0xA0
      \<or> c = 0x1680 \<or> (0x2000 \<le> c \<and> c \<le> 0x200A) \<or> c = 0x2028 \<or> c = 0x2029
      \<or> c = 0x202F \<or> c = 0x205F \<or> c = 0x3000 \<or> c = 0xFEFF)"

definition trim :: "jstring \<Rightarrow> jstring" where
  "trim s = rev (dropWhile is_space (rev (dropWhile is_space s)))"

text \<open>\<^verbatim>\<open>s.includes(sub)\<close>: \<open>sub\<close> occurs somewhere in \<open>s\<close>.\<close>

fun str_includes :: "jstring \<Rightarrow> jstring \<Rightarrow> bool" where
  "str_includes [] sub = (sub = [])"
| "str_includes (c # cs) sub = (take (length sub) (c # cs) = sub \<or> str_includes cs sub)"

text \<open>Decimal digits of a natural number.\<close>

fun show_nat :: "nat \<Rightarrow> jstring" where
  "show_nat n =
     (if n < 10 then [48 + n]
      else show_nat (n div 10) @ [48 + n mod 10])"

declare show_nat.simps [simp del]

definition show_int :: "int \<Rightarrow> jstring" where
  "show_int i = (if i < 0 then 45 # show_nat (nat (- i)) else show_nat (nat i))"

subsection \<open>Numbers\<close>

text \<open>
  The doubles that are integers, and the sum of two of them. Below \<open>2^53\<close> every
  integer is a double; from there on the doubles are \<open>ulp\<close> apart, and a sum that
  falls between two of them is rounded to the nearer one, a tie going to the one
  with the even significand. (No double reaches \<open>2^1024\<close>, and from the largest
  one the sum with 1 rounds back down, so the overflow to infinity does not arise.)
\<close>

fun ulp :: "nat \<Rightarrow> nat" where
  "ulp m = (if m < 9007199254740992 then 1 else 2 * ulp (m div 2))"

declare ulp.simps [simp del]

definition round_even :: "nat \<Rightarrow> nat" where
  "round_even m =
     (let u = ulp m; q = m div u; r = m mod u
      in if 2 * r < u \<or> (2 * r = u \<and> even q) then q * u else (q + 1) * u)"

definition to_double :: "int \<Rightarrow> int" where
  "to_double x = (if x < 0 then - int (round_even (nat (- x))) else int (round_even (nat x)))"

definition js_add :: "int \<Rightarrow> int \<Rightarrow> int" where
  "js_add a b = to_double (a + b)"

subsection \<open>JavaScript values\<close>

text \<open>
  The values a parsed JSON text can give, and \<^verbatim>\<open>undefined\<close>. A number is an integer;
  an object lists its own properties, each name once.
\<close>

datatype js =
    JUndefined
  | JNull
  | JBool bool
  | JNum int
  | JStr jstring
  | JArr "js list"
  | JObj "(jstring \<times> js) list"

datatype exn = TypeError | SyntaxError | Rejected | Error jstring

text \<open>Truthiness, as \<^verbatim>\<open>||\<close>, \<^verbatim>\<open>&&\<close>, \<^verbatim>\<open>!\<close> and \<^verbatim>\<open>if\<close> read a value.\<close>

fun js_truthy :: "js \<Rightarrow> bool" where
  "js_truthy JUndefined = False"
| "js_truthy JNull = False"
| "js_truthy (JBool b) = b"
| "js_truthy (JNum n) = (n \<noteq> 0)"
| "js_truthy (JStr s) = (s \<noteq> [])"
| "js_truthy (JArr xs) = True"
| "js_truthy (JObj kvs) = True"

definition js_or :: "js \<Rightarrow> js \<Rightarrow> js" where
  "js_or a b = (if js_truthy a then a else b)"

text \<open>
  Reading a property \<^verbatim>\<open>v.k\<close> for the names the handler reads (\<^verbatim>\<open>vin\<close>,
  \<^verbatim>\<open>email\<close>, \<^verbatim>\<open>category\<close>, \<^verbatim>\<open>n\<close>, \<^verbatim>\<open>results\<close>, \<^verbatim>\<open>id\<close>,
  \<^verbatim>\<open>status\<close>, \<^verbatim>\<open>message\<close>, \<^verbatim>\<open>error\<close>), none of which a built-in prototype
  defines: an object gives its own property, any other value but \<^verbatim>\<open>null\<close> and
  \<^verbatim>\<open>undefined\<close> gives \<^verbatim>\<open>undefined\<close>, and those two throw a TypeError.
  \<open>js_opt\<close> is the optional chaining \<^verbatim>\<open>v?.k\<close>.
\<close>

fun js_prop :: "js \<Rightarrow> string \<Rightarrow> js" where
  "js_prop (JObj kvs) k = (case map_of kvs (str k) of None \<Rightarrow> JUndefined | Some v \<Rightarrow> v)"
| "js_prop v k = JUndefined"

fun js_get :: "js \<Rightarrow> string \<Rightarrow> exn + js" where
  "js_get JUndefined k = Inl TypeError"
| "js_get JNull k = Inl TypeError"
| "js_get v k = Inr (js_prop v k)"

fun js_opt :: "js \<Rightarrow> string \<Rightarrow> js" where
  "js_opt JUndefined k = JUndefined"
| "js_opt JNull k = JUndefined"
| "js_opt v k = js_prop v k"

fun intersperse :: "jstring \<Rightarrow> jstring list \<Rightarrow> jstring" where
  "intersperse sep [] = []"
| "intersperse sep [x] = x"
| "intersperse sep (x # y # zs) = x @ sep @ intersperse sep (y # zs)"

fun collect :: "(exn + 'a) list \<Rightarrow> exn + 'a list" where
  "collect [] = Inr []"
| "collect (x # xs) =
     (case x of
        Inl e \<Rightarrow> Inl e
      | Inr v \<Rightarrow> (case collect xs of Inl e \<Rightarrow> Inl e | Inr vs \<Rightarrow> Inr (v # vs)))"

text \<open>
  \<^verbatim>\<open>String(v)\<close>, also the conversion of \<^verbatim>\<open>${v}\<close>. An integer up to \<open>2^53\<close> in
  magnitude prints its decimal digits. A larger one prints the shortest digits that
  identify the double, filled up with zeros, or in exponent notation from \<open>10^21\<close>
  on; the first argument supplies that text. An array joins its elements with commas, \<^verbatim>\<open>null\<close> and
  \<^verbatim>\<open>undefined\<close> elements printing as nothing. A plain object prints through
  \<^verbatim>\<open>Object.prototype.toString\<close>; one that has a property \<^verbatim>\<open>toString\<close> of its own
  (never a function in a parsed body) has no usable conversion left and throws a
  TypeError.
\<close>

definition numberToString :: "(int \<Rightarrow> jstring) \<Rightarrow> int \<Rightarrow> jstring" where
  "numberToString big n = (if \<bar>n\<bar> \<le> 9007199254740992 then show_int n else big n)"

fun js_String :: "(int \<Rightarrow> jstring) \<Rightarrow> js \<Rightarrow> exn + jstring" where
  "js_String big JUndefined = Inr (str ''undefined'')"
| "js_String big JNull = Inr (str ''null'')"
| "js_String big (JBool b) = Inr (if b then str ''true'' else str ''false'')"
| "js_String big (JNum n) = Inr (numberToString big n)"
| "js_String big (JStr s) = Inr s"
| "js_String big (JArr xs) =
     (case collect (map (\<lambda>x. if x = JUndefined \<or> x = JNull then Inr [] else js_String big x) xs) of
        Inl e \<Rightarrow> Inl e
      | Inr parts \<Rightarrow> Inr (intersperse (str '','') parts))"
| "js_String big (JObj kvs) =
     (if map_of kvs (str ''toString'') = None then Inr (str ''[object Object]'')
      else Inl TypeError)"

subsection \<open>The Durable Object: \<^verbatim>\<open>ClaimCounter\<close>\<close>

text \<open>
  \<^verbatim>\<open>this.state.storage\<close> is a persistent map from keys to values. The only writer
  of key \<^verbatim>\<open>n\<close> is the object itself, which stores numbers. A storage operation can
  reject; \<open>fault\<close> says which one does in a given call.
\<close>

type_synonym storage = "string \<rightharpoonup> int"

datatype fault = NoFault | GetRejects | PutRejects

definition storage_get :: "fault \<Rightarrow> storage \<Rightarrow> string \<Rightarrow> exn + int option" where
  "storage_get f st k = (if f = GetRejects then Inl Rejected else Inr (st k))"

definition storage_put :: "fault \<Rightarrow> storage \<Rightarrow> string \<Rightarrow> int \<Rightarrow> exn + storage" where
  "storage_put f st k v = (if f = PutRejects then Inl Rejected else Inr (st(k \<mapsto> v)))"

text \<open>
  A response: its status, the headers the code sets (those the platform adds are not
  listed) and its body; \<open>JsonBody v\<close> is the text \<^verbatim>\<open>JSON.stringify(v)\<close>.
\<close>

datatype body = NoBody | TextBody string | JsonBody js

record response =
  rsp_status :: nat
  rsp_headers :: "(string \<times> jstring) list"
  rsp_body :: body

record do_request =
  do_method :: string
  do_pathname :: string

text \<open>
  \<^verbatim>\<open>(await this.state.storage.get("n")) || 100000\<close>: the seed stands in for a key
  that is absent and for a stored \<open>0\<close>.
\<close>

definition seed :: int where
  "seed = 100000"

definition current :: "int option \<Rightarrow> int" where
  "current v = (case v of None \<Rightarrow> seed | Some n \<Rightarrow> if n = 0 then seed else n)"

definition ClaimCounter_fetch ::
  "fault \<Rightarrow> storage \<Rightarrow> do_request \<Rightarrow> (exn + response) \<times> storage" where
  "ClaimCounter_fetch f st request =
     (if do_method request \<noteq> ''POST'' \<or> do_pathname request \<noteq> ''/next'' then
        (Inr \<lparr>rsp_status = 404, rsp_headers = [], rsp_body = TextBody ''Not found''\<rparr>, st)
      else
        case storage_get f st ''n'' of
          Inl e \<Rightarrow> (Inl e, st)
        | Inr v \<Rightarrow>
            let n = js_add (current v) 1 in
            (case storage_put f st ''n'' n of
               Inl e \<Rightarrow> (Inl e, st)
             | Inr st' \<Rightarrow>
                 (Inr \<lparr>rsp_status = 200,
                       rsp_headers = [(''content-type'', str ''application/json'')],
                       rsp_body = JsonBody (JObj [(str ''n'', JNum n)])\<rparr>, st')))"

definition next_request :: do_request where
  "next_request = \<lparr>do_method = ''POST'', do_pathname = ''/next''\<rparr>"

text \<open>
  What a caller of \<^verbatim>\<open>POST /next\<close> reads out of the reply: \<^verbatim>\<open>r.json()\<close>, then
  the property \<^verbatim>\<open>n\<close>.
\<close>

definition body_json :: "body \<Rightarrow> js option" where
  "body_json b = (case b of JsonBody v \<Rightarrow> Some v | _ \<Rightarrow> None)"

definition issued_number :: "exn + response \<Rightarrow> int option" where
  "issued_number r =
     (case r of
        Inl e \<Rightarrow> None
      | Inr rsp \<Rightarrow>
          (case body_json (rsp_body rsp) of
             Some (JObj [(k, JNum n)]) \<Rightarrow> if k = str ''n'' then Some n else None
           | _ \<Rightarrow> None))"

text \<open>
  The object holds nothing between calls but the handles its constructor stores
  (\<^verbatim>\<open>this.state\<close>, \<^verbatim>\<open>this.env\<close>): a restart builds a new instance on the same
  persisted storage.
\<close>

definition restart :: "storage \<Rightarrow> storage" where
  "restart st = st"

datatype event = Next fault | Restart


text \<open>The storage a run leaves behind.\<close>

fun final :: "storage \<Rightarrow> event list \<Rightarrow> storage" where
  "final st [] = st"
| "final st (Restart # es) = final (restart st) es"
| "final st (Next f # es) = final (snd (ClaimCounter_fetch f st next_request)) es"

subsection \<open>Regular expressions of the validation\<close>

text \<open>
  The two patterns of the handler are anchored at both ends and are sequences of
  character classes, each taken once, one or more times (\<^verbatim>\<open>+\<close>) or a fixed number
  of times (\<^verbatim>\<open>{17}\<close>). Without the \<^verbatim>\<open>u\<close> flag a class matches one code unit.
  \<open>rests\<close> lists what can remain of a string after one quantified class has matched
  a prefix of it, so that \<open>matches\<close> tries every split the backtracking matcher of
  \<^verbatim>\<open>RegExp.prototype.test\<close> would try.
\<close>

datatype quant = Once | OneOrMore | Exactly nat

type_synonym regex = "((nat \<Rightarrow> bool) \<times> quant) list"

fun many1 :: "(nat \<Rightarrow> bool) \<Rightarrow> jstring \<Rightarrow> jstring list" where
  "many1 p [] = []"
| "many1 p (c # cs) = (if p c then cs # many1 p cs else [])"

definition exactly :: "nat \<Rightarrow> (nat \<Rightarrow> bool) \<Rightarrow> jstring \<Rightarrow> jstring list" where
  "exactly n p s = (if n \<le> length s \<and> list_all p (take n s) then [drop n s] else [])"

fun rests :: "(nat \<Rightarrow> bool) \<Rightarrow> quant \<Rightarrow> jstring \<Rightarrow> jstring list" where
  "rests p Once s = exactly 1 p s"
| "rests p OneOrMore s = many1 p s"
| "rests p (Exactly n) s = exactly n p s"

fun matches :: "regex \<Rightarrow> jstring \<Rightarrow> bool" where
  "matches [] s = (s = [])"
| "matches ((p, q) # r) s = list_ex (matches r) (rests p q s)"

definition regex_test :: "regex \<Rightarrow> jstring \<Rightarrow> bool" where
  "regex_test r s = matches r s"

text \<open>A range \<^verbatim>\<open>a-b\<close> of a class, and a single character.\<close>

definition in_range :: "char \<Rightarrow> char \<Rightarrow> nat \<Rightarrow> bool" where
  "in_range a b c = (of_char a \<le> c \<and> c \<le> of_char b)"

definition is_char :: "char \<Rightarrow> nat \<Rightarrow> bool" where
  "is_char a c = (c = of_char a)"

text \<open>\<^verbatim>\<open>[A-HJ-NPR-Z0-9]\<close> and \<^verbatim>\<open>[^\s@]\<close>.\<close>

definition vin_class :: "nat \<Rightarrow> bool" where
  "vin_class c =
     (in_range CHR ''A'' CHR ''H'' c \<or> in_range CHR ''J'' CHR ''N'' c \<or> is_char CHR ''P'' c
      \<or> in_range CHR ''R'' CHR ''Z'' c \<or> in_range CHR ''0'' CHR ''9'' c)"

definition not_space_at :: "nat \<Rightarrow> bool" where
  "not_space_at c = (\<not> (is_space c \<or> is_char CHR ''@'' c))"

text \<open>\<^verbatim>\<open>/^[A-HJ-NPR-Z0-9]{17}$/\<close> and \<^verbatim>\<open>/^[^\s@]+@[^\s@]+\.[^\s@]+$/\<close>.\<close>

definition VIN_RE :: regex where
  "VIN_RE = [(vin_class, Exactly 17)]"

definition EMAIL_RE :: regex where
  "EMAIL_RE =
     [(not_space_at, OneOrMore), (is_char CHR ''@'', Once), (not_space_at, OneOrMore),
      (is_char CHR ''.'', Once), (not_space_at, OneOrMore)]"

definition VIN_MESSAGE :: jstring where
  "VIN_MESSAGE = str ''VIN must be 17 chars (no I, O, Q).''"

definition EMAIL_MESSAGE :: jstring where
  "EMAIL_MESSAGE = str ''Email is invalid.''"

text \<open>Step 4 of \<^verbatim>\<open>fetch\<close>: the list \<^verbatim>\<open>errors\<close>.\<close>

definition validate :: "jstring \<Rightarrow> jstring \<Rightarrow> jstring list" where
  "validate vin email =
     (if regex_test VIN_RE vin then [] else [VIN_MESSAGE]) @
     (if regex_test EMAIL_RE email then [] else [EMAIL_MESSAGE])"

subsection \<open>Requests, the environment and responses\<close>

text \<open>
  A request carries its method, its headers (under their lower-case names, as
  \<^verbatim>\<open>Headers.get\<close> ignores the case of a name) and its body, given by what the two
  readers make of it: \<open>req_json\<close> is the value \<^verbatim>\<open>request.json()\<close> resolves to
  (\<open>None\<close> when the body is not JSON and the promise rejects), \<open>req_form\<close> the fields
  \<^verbatim>\<open>request.formData()\<close> resolves to (\<open>None\<close> when it rejects).
\<close>

datatype form_value = FormText jstring | FormFile

record request =
  req_method :: string
  req_headers :: "string \<rightharpoonup> jstring"
  req_json :: "js option"
  req_form :: "(jstring \<times> form_value) list option"

text \<open>
  The variables and secrets of the worker; \<open>None\<close> is a variable that is not set.
  \<^verbatim>\<open>FROM_NAME\<close> and \<^verbatim>\<open>REPLY_TO\<close> only decorate the message and are left out.
\<close>

record env =
  EMAIL_ENABLED :: "jstring option"
  EMAIL_API_ENDPOINT :: "jstring option"
  EMAIL_API_KEY :: "jstring option"
  FROM_EMAIL :: "jstring option"
  HS_TICKET_PIPELINE :: "jstring option"
  HS_TICKET_STAGE :: "jstring option"
  HUBSPOT_TOKEN :: "jstring option"

text \<open>A string that may be missing, read as a condition and under \<^verbatim>\<open>x || d\<close>.\<close>

definition is_set :: "jstring option \<Rightarrow> bool" where
  "is_set x = (case x of None \<Rightarrow> False | Some s \<Rightarrow> s \<noteq> [])"

definition or_default :: "jstring option \<Rightarrow> jstring \<Rightarrow> jstring" where
  "or_default x d = (case x of None \<Rightarrow> d | Some s \<Rightarrow> if s = [] then d else s)"

text \<open>\<^verbatim>\<open>request.headers.get(name)\<close>, the name given in lower case.\<close>

definition headers_get :: "request \<Rightarrow> string \<Rightarrow> jstring option" where
  "headers_get request name = req_headers request name"

definition ALLOWED_ORIGINS :: "jstring list" where
  "ALLOWED_ORIGINS =
     [str ''http://127.0.0.1:5500'', str ''https://boatmateparts.com'',
      str ''https://www.boatmateparts.com'', str ''http://boatmateparts.com'',
      str ''http://www.boatmateparts.com'']"

definition DEV_FALLBACK_STAR :: bool where
  "DEV_FALLBACK_STAR = False"

definition allowOrigin :: "jstring \<Rightarrow> jstring" where
  "allowOrigin origin =
     (if origin \<noteq> [] \<and> List.member ALLOWED_ORIGINS origin then origin
      else if DEV_FALLBACK_STAR then str ''*'' else [])"

definition corsHeaders :: "request \<Rightarrow> (string \<times> jstring) list" where
  "corsHeaders request =
     (let origin = or_default (headers_get request ''origin'') [];
          reqHeaders = or_default (headers_get request ''access-control-request-headers'')
                         (str ''content-type'')
      in [(''Access-Control-Allow-Origin'', allowOrigin origin),
          (''Access-Control-Allow-Methods'', str ''POST, OPTIONS''),
          (''Access-Control-Allow-Headers'', reqHeaders),
          (''Access-Control-Max-Age'', str ''86400''),
          (''Vary'', str ''Origin'')])"

definition handlePreflight :: "request \<Rightarrow> response" where
  "handlePreflight request =
     (let reqMethod = or_default (headers_get request ''access-control-request-method'')
                        (str ''POST'');
          reqHeaders = or_default (headers_get request ''access-control-request-headers'')
                         (str ''content-type'');
          origin = or_default (headers_get request ''origin'') []
      in \<lparr>rsp_status = 204,
          rsp_headers =
            [(''Access-Control-Allow-Origin'', allowOrigin origin),
             (''Access-Control-Allow-Methods'', reqMethod),
             (''Access-Control-Allow-Headers'', reqHeaders),
             (''Access-Control-Max-Age'', str ''86400''),
             (''Vary'', str ''Origin'')],
          rsp_body = NoBody\<rparr>)"

text \<open>\<^verbatim>\<open>json(request, body, status)\<close>.\<close>

definition json :: "request \<Rightarrow> js \<Rightarrow> nat \<Rightarrow> response" where
  "json request b status =
     \<lparr>rsp_status = status,
      rsp_headers = (''content-type'', str ''application/json'') # corsHeaders request,
      rsp_body = JsonBody b\<rparr>"

subsection \<open>The outside: the counter binding, HTTP, the trace id and Unicode\<close>

text \<open>
  Every call the handler makes to a collaborator is appended to \<open>calls\<close>. The HubSpot
  calls carry the path's operation and the properties sent; the Brevo call carries the
  endpoint, the sender, the recipient and the subject (the HTML and text bodies, the
  sender name and the reply-to address are not part of the model).
\<close>

datatype call =
    CounterFetch
  | ContactSearch jstring
  | ContactCreate "(string \<times> jstring) list"
  | TicketCreate "(string \<times> jstring) list"
  | EmailSend jstring jstring jstring jstring

record world =
  store :: storage
  calls :: "call list"

text \<open>
  \<open>stub_reply\<close> is what \<^verbatim>\<open>doStub.fetch(...).then(r => r.json())\<close> can come to:
  the fetch rejects, or it answers with a body that parses as JSON or does not.
  \<open>http_result\<close> is the same for the global \<^verbatim>\<open>fetch\<close>: a rejection, or a status
  and the body (\<open>None\<close> when the text is empty or is not JSON).

  The record \<open>outside\<close> holds what the worker gets from its platform: the binding
  \<^verbatim>\<open>CLAIM_COUNTER\<close>, the answers of the HTTP endpoints (which may depend on the calls
  made so far), \<^verbatim>\<open>crypto.randomUUID()\<close>, and the parts of the language whose tables
  are not written out here: the Unicode case mappings behind
  \<^verbatim>\<open>String.prototype.toUpperCase\<close> and \<^verbatim>\<open>toLowerCase\<close>, and the text of a
  number above \<open>2^53\<close>. Every theorem that leaves them free holds for the real ones.
\<close>

datatype stub_reply = StubRejects | StubBody "js option"

datatype http_result = NetFail | Reply nat "js option"

record outside =
  counter :: "storage \<Rightarrow> stub_reply \<times> storage"
  http :: "call list \<Rightarrow> call \<Rightarrow> http_result"
  randomUUID :: jstring
  upperCase :: "jstring \<Rightarrow> jstring"
  lowerCase :: "jstring \<Rightarrow> jstring"
  bigNumberToString :: "int \<Rightarrow> jstring"

text \<open>
  \<^verbatim>\<open>s.toUpperCase()\<close> and \<^verbatim>\<open>s.toLowerCase()\<close>: the empty string stays empty, any
  other string is mapped by the Unicode tables.
\<close>

definition toUpperCase :: "outside \<Rightarrow> jstring \<Rightarrow> jstring" where
  "toUpperCase ext s = (if s = [] then [] else upperCase ext s)"

definition toLowerCase :: "outside \<Rightarrow> jstring \<Rightarrow> jstring" where
  "toLowerCase ext s = (if s = [] then [] else lowerCase ext s)"

text \<open>The binding \<^verbatim>\<open>CLAIM_COUNTER\<close> as this file provides it: the class \<^verbatim>\<open>ClaimCounter\<close>.\<close>

definition ClaimCounter_stub :: "fault \<Rightarrow> storage \<Rightarrow> stub_reply \<times> storage" where
  "ClaimCounter_stub f st =
     (case ClaimCounter_fetch f st next_request of
        (Inl e, st') \<Rightarrow> (StubRejects, st')
      | (Inr r, st') \<Rightarrow> (StubBody (body_json (rsp_body r)), st'))"

definition resp_ok :: "nat \<Rightarrow> bool" where
  "resp_ok status = (200 \<le> status \<and> status \<le> 299)"

subsection \<open>Step 3 of \<^verbatim>\<open>fetch\<close>: reading the body\<close>

definition and_then :: "exn + 'a \<Rightarrow> ('a \<Rightarrow> exn + 'b) \<Rightarrow> exn + 'b" where
  "and_then m f = (case m of Inl e \<Rightarrow> Inl e | Inr v \<Rightarrow> f v)"

text \<open>The JSON branch, on the parsed body \<^verbatim>\<open>b\<close>; the result is (vin, email, category).\<close>

definition parse_json :: "outside \<Rightarrow> js \<Rightarrow> exn + jstring \<times> jstring \<times> jstring" where
  "parse_json ext b =
     and_then (js_get b ''vin'') (\<lambda>v.
     and_then (js_String (bigNumberToString ext) (js_or v (JStr []))) (\<lambda>vin.
     and_then (js_get b ''email'') (\<lambda>e.
     and_then (js_String (bigNumberToString ext) (js_or e (JStr []))) (\<lambda>email.
     and_then (js_get b ''category'') (\<lambda>c.
       if js_truthy c then
         and_then (js_String (bigNumberToString ext) c) (\<lambda>category.
           Inr (toUpperCase ext (trim vin), trim email, trim category))
       else Inr (toUpperCase ext (trim vin), trim email, str ''Warranty''))))))"

text \<open>
  The form branch: \<^verbatim>\<open>f.get(k)\<close> is the first value of the field or \<^verbatim>\<open>null\<close>;
  a file is truthy and prints as \<^verbatim>\<open>[object File]\<close>.
\<close>

definition form_get :: "(jstring \<times> form_value) list \<Rightarrow> string \<Rightarrow> form_value option" where
  "form_get f k = map_of f (str k)"

definition form_truthy :: "form_value option \<Rightarrow> bool" where
  "form_truthy v = (case v of None \<Rightarrow> False | Some (FormText s) \<Rightarrow> s \<noteq> [] | Some FormFile \<Rightarrow> True)"

definition form_String :: "form_value option \<Rightarrow> jstring" where
  "form_String v =
     (case v of None \<Rightarrow> str ''null'' | Some (FormText s) \<Rightarrow> s
      | Some FormFile \<Rightarrow> str ''[object File]'')"

definition parse_form ::
  "outside \<Rightarrow> (jstring \<times> form_value) list \<Rightarrow> jstring \<times> jstring \<times> jstring" where
  "parse_form ext f =
     (let vin = (if form_truthy (form_get f ''vin'') then form_String (form_get f ''vin'') else []);
          email = (if form_truthy (form_get f ''email'') then form_String (form_get f ''email'')
                   else []);
          cat = form_get f ''category''
      in (toUpperCase ext (trim vin), trim email,
          if form_truthy cat then trim (form_String cat) else str ''Warranty''))"

text \<open>
  The whole \<^verbatim>\<open>try\<close> block: \<open>Inl\<close> is an exception that reaches its
  \<^verbatim>\<open>catch\<close>. A body that is not JSON does not: \<^verbatim>\<open>.catch(() => ({}))\<close> turns
  the rejection into the empty object.
\<close>

definition parse_body ::
  "outside \<Rightarrow> request \<Rightarrow> jstring \<Rightarrow> exn + jstring \<times> jstring \<times> jstring" where
  "parse_body ext request ct =
     (if str_includes ct (str ''application/json'') then
        parse_json ext (case req_json request of None \<Rightarrow> JObj [] | Some b \<Rightarrow> b)
      else
        case req_form request of
          None \<Rightarrow> Inl TypeError
        | Some f \<Rightarrow> Inr (parse_form ext f))"

subsection \<open>HubSpot helpers\<close>

text \<open>
  The helpers take \<^verbatim>\<open>env\<close> for the token of the Authorization header only; the
  header is not part of the model and the parameter is left out, except in
  \<^verbatim>\<open>hsUpsertContact\<close>, which tests the token.

  \<^verbatim>\<open>hsRequest\<close>: the call is made, the text of the answer is parsed (anything that
  is empty or does not parse counts as \<^verbatim>\<open>{}\<close>), and a status outside 200..299
  throws. A rejection of \<^verbatim>\<open>fetch\<close> or of \<^verbatim>\<open>resp.text()\<close> is \<open>NetFail\<close>.
\<close>

definition hsRequest :: "outside \<Rightarrow> call \<Rightarrow> world \<Rightarrow> (exn + js) \<times> world" where
  "hsRequest ext c w =
     (let w' = w\<lparr>calls := calls w @ [c]\<rparr> in
      case http ext (calls w) c of
        NetFail \<Rightarrow> (Inl Rejected, w')
      | Reply status b \<Rightarrow>
          let parsed = (case b of None \<Rightarrow> JObj [] | Some v \<Rightarrow> v) in
          if \<not> resp_ok status then
            (let code = js_or (js_opt parsed ''status'') (JNum (int status));
                 msg = js_or (js_opt parsed ''message'')
                         (js_or (js_opt parsed ''error'') (JStr (str ''HTTP '' @ numberToString (bigNumberToString ext) (int status))))
             in (case js_String (bigNumberToString ext) code of
                   Inl e \<Rightarrow> (Inl e, w')
                 | Inr cs \<Rightarrow>
                     (case js_String (bigNumberToString ext) msg of
                        Inl e \<Rightarrow> (Inl e, w')
                      | Inr ms \<Rightarrow> (Inl (Error (str ''HubSpot '' @ cs @ str '': '' @ ms)), w'))))
          else (Inr parsed, w'))"

definition first_result :: "js \<Rightarrow> js" where
  "first_result res =
     (case js_opt res ''results'' of
        JArr xs \<Rightarrow> (case xs of [] \<Rightarrow> JUndefined | x # rest \<Rightarrow> x)
      | other \<Rightarrow> JBool False)"

definition hsFindContactByEmail :: "outside \<Rightarrow> jstring \<Rightarrow> world \<Rightarrow> (exn + js) \<times> world" where
  "hsFindContactByEmail ext email w =
     (case hsRequest ext (ContactSearch (toLowerCase ext email)) w of
        (Inl e, w') \<Rightarrow> (Inl e, w')
      | (Inr res, w') \<Rightarrow>
          let hit = first_result res in
          (Inr (if js_truthy hit then js_prop hit ''id'' else JNull), w'))"

definition hsCreateContact ::
  "outside \<Rightarrow> (string \<times> jstring) list \<Rightarrow> world \<Rightarrow> (exn + js) \<times> world" where
  "hsCreateContact ext props w =
     (case hsRequest ext (ContactCreate props) w of
        (Inl e, w') \<Rightarrow> (Inl e, w')
      | (Inr res, w') \<Rightarrow> (Inr (js_or (js_opt res ''id'') JNull), w'))"

text \<open>\<^verbatim>\<open>{ ...a, ...b }\<close>: a key of \<open>b\<close> replaces the same key of \<open>a\<close> in place, a new one is appended.\<close>

fun put_prop :: "string \<Rightarrow> jstring \<Rightarrow> (string \<times> jstring) list \<Rightarrow> (string \<times> jstring) list" where
  "put_prop k v [] = [(k, v)]"
| "put_prop k v ((k', v') # ps) = (if k' = k then (k, v) # ps else (k', v') # put_prop k v ps)"

fun spread :: "(string \<times> jstring) list \<Rightarrow> (string \<times> jstring) list \<Rightarrow> (string \<times> jstring) list" where
  "spread a [] = a"
| "spread a ((k, v) # b) = spread (put_prop k v a) b"

definition hsUpsertContact ::
  "outside \<Rightarrow> env \<Rightarrow> jstring \<Rightarrow> (string \<times> jstring) list \<Rightarrow> world \<Rightarrow> (exn + js) \<times> world" where
  "hsUpsertContact ext env email props w =
     (if \<not> is_set (HUBSPOT_TOKEN env) then (Inl (Error (str ''HUBSPOT_TOKEN missing'')), w)
      else if email = [] then (Inl (Error (str ''Email required for contact upsert'')), w)
      else
        case hsFindContactByEmail ext email w of
          (Inl e, w1) \<Rightarrow> (Inl e, w1)
        | (Inr existingId, w1) \<Rightarrow>
            if js_truthy existingId then (Inr existingId, w1)
            else
              (case hsCreateContact ext (spread [(''email'', toLowerCase ext email)] props) w1 of
                 (Inl e, w2) \<Rightarrow> (Inl e, w2)
               | (Inr newId, w2) \<Rightarrow>
                   if \<not> js_truthy newId then (Inl (Error (str ''Failed to create contact'')), w2)
                   else (Inr newId, w2)))"

definition hsCreateTicket ::
  "outside \<Rightarrow> (string \<times> jstring) list \<Rightarrow> world \<Rightarrow> (exn + js) \<times> world" where
  "hsCreateTicket ext props w =
     (case hsRequest ext (TicketCreate props) w of
        (Inl e, w') \<Rightarrow> (Inl e, w')
      | (Inr res, w') \<Rightarrow> (Inr (js_or (js_opt res ''id'') JNull), w'))"

subsection \<open>Brevo\<close>

text \<open>The text of the error thrown on a status outside 200..299 is cut to its fixed part.\<close>

definition sendEmail ::
  "outside \<Rightarrow> env \<Rightarrow> jstring \<Rightarrow> jstring option \<Rightarrow> jstring \<Rightarrow> world \<Rightarrow> (exn + unit) \<times> world" where
  "sendEmail ext env to from subject w =
     (let endpoint = or_default (EMAIL_API_ENDPOINT env) (str ''https://api.brevo.com/v3/smtp/email'');
          apiKey = EMAIL_API_KEY env;
          fromEmail = (if is_set from then from else FROM_EMAIL env)
      in if \<not> is_set apiKey \<or> \<not> is_set fromEmail then
           (Inl (Error (str ''Missing EMAIL_API_KEY or FROM_EMAIL for Brevo.'')), w)
         else
           let c = EmailSend endpoint (or_default fromEmail []) to subject;
               w' = w\<lparr>calls := calls w @ [c]\<rparr>
           in (case http ext (calls w) c of
                 NetFail \<Rightarrow> (Inl Rejected, w')
               | Reply status b \<Rightarrow>
                   if \<not> resp_ok status then (Inl (Error (str ''Brevo send failed'')), w')
                   else (Inr (), w')))"

subsection \<open>The handler \<^verbatim>\<open>fetch\<close>\<close>

text \<open>Step 5: the claim number, or the exception that leaves \<^verbatim>\<open>fetch\<close> uncaught.\<close>

definition allocate :: "outside \<Rightarrow> world \<Rightarrow> (exn + js) \<times> world" where
  "allocate ext w =
     (let w1 = w\<lparr>calls := calls w @ [CounterFetch]\<rparr> in
      case counter ext (store w1) of
        (reply, st') \<Rightarrow>
          let w2 = w1\<lparr>store := st'\<rparr> in
          (case reply of
             StubRejects \<Rightarrow> (Inl Rejected, w2)
           | StubBody None \<Rightarrow> (Inl SyntaxError, w2)
           | StubBody (Some v) \<Rightarrow> (js_get v ''n'', w2)))"

text \<open>Step 6: \<^verbatim>\<open>contactId\<close>, \<^verbatim>\<open>null\<close> when the upsert throws.\<close>

definition contact_step :: "outside \<Rightarrow> env \<Rightarrow> jstring \<Rightarrow> world \<Rightarrow> js \<times> world" where
  "contact_step ext env email w =
     (case hsUpsertContact ext env (toLowerCase ext email)
             [(''email'', toLowerCase ext email)] w of
        (Inl e, w') \<Rightarrow> (JNull, w')
      | (Inr contactId, w') \<Rightarrow> (contactId, w'))"

definition newline :: jstring where
  "newline = [0x0A]"

text \<open>Step 7: \<^verbatim>\<open>ticketId\<close>, \<^verbatim>\<open>null\<close> when anything in the \<^verbatim>\<open>try\<close> block throws.\<close>

definition ticketProps ::
  "outside \<Rightarrow> env \<Rightarrow> jstring \<Rightarrow> jstring \<Rightarrow> jstring \<Rightarrow> jstring \<Rightarrow> (string \<times> jstring) list" where
  "ticketProps ext env vin email category cn =
     (let pipeline = or_default (HS_TICKET_PIPELINE env) (str ''760934225'');
          stage = or_default (HS_TICKET_STAGE env) (str ''1108043102'')
      in [(''hs_pipeline'', pipeline),
          (''hs_pipeline_stage'', stage),
          (''subject'', str ''Warranty Claim #'' @ cn @ str '' - '' @ toUpperCase ext vin),
          (''content'',
             str ''Warranty intake POC'' @ newline @
             str ''Claim #: '' @ cn @ newline @
             str ''VIN: '' @ toUpperCase ext vin @ newline @
             str ''Email: '' @ toLowerCase ext email),
          (''hs_ticket_category'', category),
          (''trailer_vin'', toUpperCase ext vin)])"

definition ticket_step ::
  "outside \<Rightarrow> env \<Rightarrow> jstring \<Rightarrow> jstring \<Rightarrow> jstring \<Rightarrow> js \<Rightarrow> world \<Rightarrow> js \<times> world" where
  "ticket_step ext env vin email category claimNumber w =
     (case js_String (bigNumberToString ext) claimNumber of
        Inl e \<Rightarrow> (JNull, w)
      | Inr cn \<Rightarrow>
          (case hsCreateTicket ext (ticketProps ext env vin email category cn) w of
             (Inl e, w') \<Rightarrow> (JNull, w')
           | (Inr ticketId, w') \<Rightarrow> (ticketId, w')))"

text \<open>
  Step 8: \<^verbatim>\<open>emailStatus\<close>. The subject is built outside the \<^verbatim>\<open>try\<close>, so a
  claim number that cannot be printed throws out of \<^verbatim>\<open>fetch\<close>.
\<close>

definition emailConfigured :: "env \<Rightarrow> bool" where
  "emailConfigured env =
     (EMAIL_ENABLED env = Some (str ''true'') \<and>
      (is_set (EMAIL_API_ENDPOINT env) \<and> is_set (EMAIL_API_KEY env) \<and> is_set (FROM_EMAIL env)))"

definition emailSubject :: "jstring \<Rightarrow> jstring" where
  "emailSubject cn = str ''Warranty request received - Claim #'' @ cn"

definition email_step ::
  "outside \<Rightarrow> env \<Rightarrow> jstring \<Rightarrow> js \<Rightarrow> world \<Rightarrow> (exn + jstring) \<times> world" where
  "email_step ext env email claimNumber w =
     (if emailConfigured env then
        (case js_String (bigNumberToString ext) claimNumber of
           Inl e \<Rightarrow> (Inl e, w)
         | Inr cn \<Rightarrow>
             (case sendEmail ext env email (FROM_EMAIL env) (emailSubject cn) w of
                (Inl e, w') \<Rightarrow> (Inr (str ''failed''), w')
              | (Inr u, w') \<Rightarrow> (Inr (str ''sent''), w')))
      else (Inr (str ''skipped''), w))"

text \<open>Step 9. The apostrophe of the second message is U+2019.\<close>

definition message_for :: "jstring \<Rightarrow> jstring" where
  "message_for emailStatus =
     (if emailStatus = str ''sent'' then str ''Submitted. Confirmation email sent.''
      else if emailStatus = str ''failed'' then
        str ''Submitted. Email delivery is currently unavailable; we'' @ [0x2019] @
        str ''ll follow up.''
      else str ''Submitted. (Email not configured in this environment.)'')"

text \<open>Steps 5 to 9, for a submission that passed validation.\<close>

definition submit ::
  "outside \<Rightarrow> env \<Rightarrow> request \<Rightarrow> jstring \<Rightarrow> jstring \<Rightarrow> jstring \<Rightarrow> world \<Rightarrow> (exn + response) \<times> world" where
  "submit ext env request vin email category w =
     (let ref = randomUUID ext in
      case allocate ext w of
        (Inl e, w1) \<Rightarrow> (Inl e, w1)
      | (Inr claimNumber, w1) \<Rightarrow>
          (case contact_step ext env email w1 of
             (contactId, w2) \<Rightarrow>
               (case ticket_step ext env vin email category claimNumber w2 of
                  (ticketId, w3) \<Rightarrow>
                    (case email_step ext env email claimNumber w3 of
                       (Inl e, w4) \<Rightarrow> (Inl e, w4)
                     | (Inr emailStatus, w4) \<Rightarrow>
                         (Inr (json request
                                (JObj [(str ''ok'', JBool True),
                                       (str ''claimNumber'', claimNumber),
                                       (str ''ref'', JStr ref),
                                       (str ''contactId'', contactId),
                                       (str ''ticketId'', ticketId),
                                       (str ''emailStatus'', JStr emailStatus),
                                       (str ''message'', JStr (message_for emailStatus))])
                                200), w4)))))"

text \<open>The constant \<^verbatim>\<open>ct\<close> of step 3.\<close>

definition content_type :: "outside \<Rightarrow> request \<Rightarrow> jstring" where
  "content_type ext request =
     toLowerCase ext (or_default (headers_get request ''content-type'') [])"

definition fetch :: "outside \<Rightarrow> env \<Rightarrow> request \<Rightarrow> world \<Rightarrow> (exn + response) \<times> world" where
  "fetch ext env request w =
     (if req_method request = ''OPTIONS'' then (Inr (handlePreflight request), w)
      else if req_method request \<noteq> ''POST'' then
        (Inr \<lparr>rsp_status = 405, rsp_headers = corsHeaders request,
              rsp_body = TextBody ''Method Not Allowed''\<rparr>, w)
      else
        let ct = content_type ext request in
        case parse_body ext request ct of
          Inl e \<Rightarrow>
            (Inr (json request
                   (JObj [(str ''ok'', JBool False),
                          (str ''errors'', JArr [JStr (str ''Invalid request body'')])])
                   400), w)
        | Inr (vin, email, category) \<Rightarrow>
            let errors = validate vin email in
            if errors \<noteq> [] then
              (Inr (json request
                     (JObj [(str ''ok'', JBool False), (str ''errors'', JArr (map JStr errors))])
                     400), w)
            else submit ext env request vin email category w)"

subsection \<open>Sample inputs\<close>

text \<open>
  Concrete requests, environments and collaborators on which the theorems are run.
  The samples are ASCII text, on which the case mappings of Unicode are the ASCII ones.
\<close>

definition ascii_upper :: "jstring \<Rightarrow> jstring" where
  "ascii_upper s = map (\<lambda>c. if 97 \<le> c \<and> c \<le> 122 then c - 32 else c) s"

definition ascii_lower :: "jstring \<Rightarrow> jstring" where
  "ascii_lower s = map (\<lambda>c. if 65 \<le> c \<and> c \<le> 90 then c + 32 else c) s"

definition json_request :: "js \<Rightarrow> request" where
  "json_request b =
     \<lparr>req_method = ''POST'',
      req_headers = [''content-type'' \<mapsto> str ''application/json''],
      req_json = Some b,
      req_form = None\<rparr>"

definition good_body :: js where
  "good_body =
     JObj [(str ''vin'', JStr (str ''1HGCM82633A123456'')),
           (str ''email'', JStr (str ''Owner@Example.com''))]"

definition bad_body :: js where
  "bad_body =
     JObj [(str ''vin'', JStr (str ''1HGCM82633A12345I'')),
           (str ''email'', JStr (str ''not-an-email''))]"

definition plain_env :: env where
  "plain_env =
     \<lparr>EMAIL_ENABLED = None, EMAIL_API_ENDPOINT = None, EMAIL_API_KEY = None, FROM_EMAIL = None,
      HS_TICKET_PIPELINE = None, HS_TICKET_STAGE = None, HUBSPOT_TOKEN = Some (str ''token'')\<rparr>"

text \<open>HubSpot finds no contact and creates contact and ticket \<^verbatim>\<open>501\<close>; Brevo accepts.\<close>

definition sample_http :: "call list \<Rightarrow> call \<Rightarrow> http_result" where
  "sample_http history c =
     (case c of
        ContactSearch email \<Rightarrow> Reply 200 (Some (JObj [(str ''results'', JArr [])]))
      | EmailSend endpoint sender to subject \<Rightarrow> Reply 201 None
      | other \<Rightarrow> Reply 201 (Some (JObj [(str ''id'', JStr (str ''501''))])))"

definition sample_outside :: outside where
  "sample_outside =
     \<lparr>counter = ClaimCounter_stub NoFault, http = sample_http,
      randomUUID = str ''3b241101-e2bb-4255-8caf-4136c566a962'',
      upperCase = ascii_upper, lowerCase = ascii_lower,
      bigNumberToString = (\<lambda>n. str ''1e+21'')\<rparr>"

definition fresh_world :: world where
  "fresh_world = \<lparr>store = Map.empty, calls = []\<rparr>"

text \<open>The counter's storage rejects the write, so the object's handler throws.\<close>

definition failing_outside :: outside where
  "failing_outside = sample_outside\<lparr>counter := ClaimCounter_stub PutRejects\<rparr>"

text \<open>HubSpot answers the contact search with status 500 and everything else as before.\<close>

definition search_down_http :: "call list \<Rightarrow> call \<Rightarrow> http_result" where
  "search_down_http history c =
     (case c of
        ContactSearch email \<Rightarrow> Reply 500 None
      | other \<Rightarrow> sample_http history c)"

definition search_down_outside :: outside where
  "search_down_outside = sample_outside\<lparr>http := search_down_http\<rparr>"

text \<open>HubSpot knows the contact: the search finds id \<^verbatim>\<open>77\<close>.\<close>

definition found_http :: "call list \<Rightarrow> call \<Rightarrow> http_result" where
  "found_http history c =
     (case c of
        ContactSearch email \<Rightarrow>
          Reply 200 (Some (JObj [(str ''results'', JArr [JObj [(str ''id'', JStr (str ''77''))]])]))
      | other \<Rightarrow> sample_http history c)"

definition found_outside :: outside where
  "found_outside = sample_outside\<lparr>http := found_http\<rparr>"

text \<open>Mail switched on with every setting present, and with the endpoint left unset.\<close>

definition mail_env :: env where
  "mail_env =
     plain_env\<lparr>EMAIL_ENABLED := Some (str ''true''),
               EMAIL_API_ENDPOINT := Some (str ''https://api.brevo.com/v3/smtp/email''),
               EMAIL_API_KEY := Some (str ''key''),
               FROM_EMAIL := Some (str ''no-reply@example.com'')\<rparr>"

definition default_endpoint_env :: env where
  "default_endpoint_env = mail_env\<lparr>EMAIL_API_ENDPOINT := None\<rparr>"


text \<open>The counter at \<open>2^53\<close>, where the doubles stop holding every integer.\<close>

definition full_store :: storage where
  "full_store = [''n'' \<mapsto> 9007199254740992]"

section \<open>Properties of the counter\<close>

subsection \<open>Where the sum is exact\<close>

lemma ulp_small: "m < 9007199254740992 \<Longrightarrow> ulp m = 1"
  by (simp add: ulp.simps)

lemma round_even_small: "m < 9007199254740992 \<Longrightarrow> round_even m = m"
  by (simp add: round_even_def ulp_small)

lemma round_even_two53: "round_even 9007199254740992 = 9007199254740992"
  by (simp add: round_even_def ulp.simps)

lemma round_even_exact: "m \<le> 9007199254740992 \<Longrightarrow> round_even m = m"
  using round_even_small [of m] round_even_two53 by (cases "m = 9007199254740992") simp_all

lemma to_double_exact: "\<bar>x\<bar> \<le> 9007199254740992 \<Longrightarrow> to_double x = x"
  by (simp add: to_double_def round_even_exact)

lemma js_add_exact: "\<bar>a + b\<bar> \<le> 9007199254740992 \<Longrightarrow> js_add a b = a + b"
  by (simp add: js_add_def to_double_exact)


subsection \<open>Runs of the counter\<close>

lemma fetch_next_ok:
  "ClaimCounter_fetch NoFault st next_request =
     (Inr \<lparr>rsp_status = 200, rsp_headers = [(''content-type'', str ''application/json'')],
           rsp_body = JsonBody (JObj [(str ''n'', JNum (js_add (current (st ''n'')) 1))])\<rparr>,
      st(''n'' \<mapsto> js_add (current (st ''n'')) 1))"
  by (simp add: ClaimCounter_fetch_def next_request_def storage_get_def storage_put_def Let_def)


lemma fetch_next_put_rejects:
  "ClaimCounter_fetch PutRejects st next_request = (Inl Rejected, st)"
  by (simp add: ClaimCounter_fetch_def next_request_def storage_get_def storage_put_def)









text \<open>
  The state of the counterexample is one the counter comes to by itself: from the empty
  storage, \<open>2^53 - 100000\<close> successful calls leave \<open>2^53\<close> stored.
\<close>

lemma final_counts:
  assumes "1 \<le> current (st ''n'')"
    and "current (st ''n'') + int k \<le> 9007199254740992"
    and "0 < k"
  shows "final st (replicate k (Next NoFault)) = st(''n'' \<mapsto> current (st ''n'') + int k)"
  using assms
proof (induction k arbitrary: st)
  case 0
  then show ?case by simp
next
  case (Suc k)
  define c where "c = current (st ''n'')"
  define st' where "st' = st(''n'' \<mapsto> c + 1)"
  have "\<bar>c + 1\<bar> \<le> 9007199254740992" using Suc.prems by (simp add: c_def)
  then have exact: "js_add c 1 = c + 1" by (rule js_add_exact)
  have step: "final st (replicate (Suc k) (Next NoFault)) = final st' (replicate k (Next NoFault))"
    by (simp add: fetch_next_ok c_def [symmetric] exact st'_def)
  have c': "current (st' ''n'') = c + 1"
    using Suc.prems(1) by (simp add: st'_def current_def c_def)
  show ?case
  proof (cases "k = 0")
    case True
    with step show ?thesis by (simp add: st'_def c_def)
  next
    case False
    have "final st' (replicate k (Next NoFault)) = st'(''n'' \<mapsto> current (st' ''n'') + int k)"
      using Suc.prems False by (intro Suc.IH) (simp_all add: c' c_def)
    then have "final st' (replicate k (Next NoFault)) = st'(''n'' \<mapsto> c + 1 + int k)"
      unfolding c' .
    then have "final st (replicate (Suc k) (Next NoFault)) = st(''n'' \<mapsto> c + 1 + int k)"
      unfolding step st'_def by simp
    then show ?thesis unfolding c_def by (simp add: add.assoc)
  qed
qed

lemma full_store_is_reached:
  "final Map.empty (replicate 9007199254640992 (Next NoFault)) = full_store"
proof -
  have "final Map.empty (replicate 9007199254640992 (Next NoFault)) =
      Map.empty(''n'' \<mapsto> current ((Map.empty :: storage) ''n'') + int 9007199254640992)"
    by (rule final_counts) (simp_all add: current_def seed_def)
  then show ?thesis by (simp add: full_store_def current_def seed_def)
qed

text \<open>
  Claim C2. A \<^verbatim>\<open>POST /next\<close> on a storage in which key \<^verbatim>\<open>n\<close> is absent answers
  with the JSON body \<^verbatim>\<open>{"n": 100001}\<close>, the seed plus one, and leaves \<open>100001\<close>
  stored under \<^verbatim>\<open>n\<close>.
\<close>

theorem first_allocate_is_seed_plus_one:
  assumes "st ''n'' = None"
  shows "ClaimCounter_fetch NoFault st next_request =
           (Inr \<lparr>rsp_status = 200, rsp_headers = [(''content-type'', str ''application/json'')],
                 rsp_body = JsonBody (JObj [(str ''n'', JNum 100001)])\<rparr>,
            st(''n'' \<mapsto> 100001))
         \<and> issued_number (fst (ClaimCounter_fetch NoFault st next_request)) = Some (seed + 1)
         \<and> snd (ClaimCounter_fetch NoFault st next_request) ''n'' = Some 100001"
  using assms
  by (simp add: fetch_next_ok current_def seed_def issued_number_def body_json_def js_add_exact)

theorem first_allocate_is_seed_plus_one_witness:
  "(Map.empty :: storage) ''n'' = None
   \<and> ClaimCounter_fetch NoFault Map.empty next_request =
       (Inr \<lparr>rsp_status = 200, rsp_headers = [(''content-type'', str ''application/json'')],
             rsp_body = JsonBody (JObj [(str ''n'', JNum 100001)])\<rparr>,
        [''n'' \<mapsto> 100001])
   \<and> issued_number (fst (ClaimCounter_fetch NoFault Map.empty next_request)) = Some 100001"
  using first_allocate_is_seed_plus_one [of Map.empty]
  by (simp add: seed_def issued_number_def body_json_def)

section \<open>Properties of the handler\<close>

subsection \<open>What the two patterns accept\<close>

text \<open>
  The matcher agrees with the patterns read as languages: the VIN pattern accepts the
  strings of 17 code units of its class, the email pattern the strings
  \<open>a @ str ''@'' @ b @ str ''.'' @ c\<close> with \<open>a\<close>, \<open>b\<close>, \<open>c\<close> non-empty and free of
  white space and \<^verbatim>\<open>@\<close>.
\<close>

lemma many1_iff:
  "r \<in> set (many1 p s) \<longleftrightarrow> (\<exists>a. a \<noteq> [] \<and> list_all p a \<and> s = a @ r)"
proof (induction s arbitrary: r)
  case Nil
  show ?case by simp
next
  case (Cons c cs)
  show ?case
  proof (cases "p c")
    case False
    then show ?thesis by (auto simp add: Cons_eq_append_conv)
  next
    case True
    have "(\<exists>a. a \<noteq> [] \<and> list_all p a \<and> c # cs = a @ r)
        \<longleftrightarrow> (r = cs \<or> (\<exists>a. a \<noteq> [] \<and> list_all p a \<and> cs = a @ r))"
    proof
      assume "\<exists>a. a \<noteq> [] \<and> list_all p a \<and> c # cs = a @ r"
      then obtain a where a: "a \<noteq> []" "list_all p a" "c # cs = a @ r" by blast
      then obtain a' where a': "a = c # a'" "cs = a' @ r" by (cases a) auto
      show "r = cs \<or> (\<exists>a. a \<noteq> [] \<and> list_all p a \<and> cs = a @ r)"
      proof (cases "a' = []")
        case True
        with a' show ?thesis by simp
      next
        case False
        with a a' show ?thesis by auto
      qed
    next
      assume "r = cs \<or> (\<exists>a. a \<noteq> [] \<and> list_all p a \<and> cs = a @ r)"
      then show "\<exists>a. a \<noteq> [] \<and> list_all p a \<and> c # cs = a @ r"
      proof
        assume "r = cs"
        with True have "[c] \<noteq> [] \<and> list_all p [c] \<and> c # cs = [c] @ r" by simp
        then show ?thesis by blast
      next
        assume "\<exists>a. a \<noteq> [] \<and> list_all p a \<and> cs = a @ r"
        then obtain a where "a \<noteq> []" "list_all p a" "cs = a @ r" by blast
        with True have "c # a \<noteq> [] \<and> list_all p (c # a) \<and> c # cs = (c # a) @ r" by simp
        then show ?thesis by blast
      qed
    qed
    with True Cons.IH [of r] show ?thesis by auto
  qed
qed

lemma once_iff: "r \<in> set (exactly 1 p s) \<longleftrightarrow> (\<exists>c. p c \<and> s = c # r)"
  by (cases s) (auto simp add: exactly_def)

lemma vin_test_iff: "regex_test VIN_RE s \<longleftrightarrow> length s = 17 \<and> list_all vin_class s"
  by (auto simp add: regex_test_def VIN_RE_def exactly_def)

lemma email_test_iff:
  "regex_test EMAIL_RE s \<longleftrightarrow>
     (\<exists>a b c. s = a @ str ''@'' @ b @ str ''.'' @ c \<and> a \<noteq> [] \<and> b \<noteq> [] \<and> c \<noteq> []
        \<and> list_all not_space_at a \<and> list_all not_space_at b \<and> list_all not_space_at c)"
proof -
  have at: "str ''@'' = [of_char CHR ''@'']" and dot: "str ''.'' = [of_char CHR ''.'']"
    by (simp_all add: str_def)
  have "regex_test EMAIL_RE s \<longleftrightarrow>
      (\<exists>r1 \<in> set (many1 not_space_at s). \<exists>r2 \<in> set (exactly 1 (is_char CHR ''@'') r1).
        \<exists>r3 \<in> set (many1 not_space_at r2). \<exists>r4 \<in> set (exactly 1 (is_char CHR ''.'') r3).
          [] \<in> set (many1 not_space_at r4))"
    by (simp add: regex_test_def EMAIL_RE_def list_ex_iff)
  also have "\<dots> \<longleftrightarrow>
     (\<exists>a b c. s = a @ str ''@'' @ b @ str ''.'' @ c \<and> a \<noteq> [] \<and> b \<noteq> [] \<and> c \<noteq> []
        \<and> list_all not_space_at a \<and> list_all not_space_at b \<and> list_all not_space_at c)"
  proof
    assume "\<exists>r1 \<in> set (many1 not_space_at s). \<exists>r2 \<in> set (exactly 1 (is_char CHR ''@'') r1).
        \<exists>r3 \<in> set (many1 not_space_at r2). \<exists>r4 \<in> set (exactly 1 (is_char CHR ''.'') r3).
          [] \<in> set (many1 not_space_at r4)"
    then obtain r1 r2 r3 r4 where
      "r1 \<in> set (many1 not_space_at s)" "r2 \<in> set (exactly 1 (is_char CHR ''@'') r1)"
      "r3 \<in> set (many1 not_space_at r2)" "r4 \<in> set (exactly 1 (is_char CHR ''.'') r3)"
      "[] \<in> set (many1 not_space_at r4)"
      by blast
    then obtain a b c where
      "a \<noteq> []" "list_all not_space_at a" "s = a @ r1" "r1 = of_char CHR ''@'' # r2"
      "b \<noteq> []" "list_all not_space_at b" "r2 = b @ r3" "r3 = of_char CHR ''.'' # r4"
      "c \<noteq> []" "list_all not_space_at c" "r4 = c @ []"
      unfolding many1_iff once_iff is_char_def by blast
    then have "s = a @ str ''@'' @ b @ str ''.'' @ c \<and> a \<noteq> [] \<and> b \<noteq> [] \<and> c \<noteq> []
        \<and> list_all not_space_at a \<and> list_all not_space_at b \<and> list_all not_space_at c"
      unfolding at dot by simp
    then show "\<exists>a b c. s = a @ str ''@'' @ b @ str ''.'' @ c \<and> a \<noteq> [] \<and> b \<noteq> [] \<and> c \<noteq> []
        \<and> list_all not_space_at a \<and> list_all not_space_at b \<and> list_all not_space_at c"
      by blast
  next
    assume "\<exists>a b c. s = a @ str ''@'' @ b @ str ''.'' @ c \<and> a \<noteq> [] \<and> b \<noteq> [] \<and> c \<noteq> []
        \<and> list_all not_space_at a \<and> list_all not_space_at b \<and> list_all not_space_at c"
    then obtain a b c where s: "s = a @ str ''@'' @ b @ str ''.'' @ c"
      and ne: "a \<noteq> []" "b \<noteq> []" "c \<noteq> []"
      and cl: "list_all not_space_at a" "list_all not_space_at b" "list_all not_space_at c"
      by blast
    have 1: "str ''@'' @ b @ str ''.'' @ c \<in> set (many1 not_space_at s)"
      unfolding many1_iff using s ne cl by blast
    have 2: "b @ str ''.'' @ c \<in> set (exactly 1 (is_char CHR ''@'') (str ''@'' @ b @ str ''.'' @ c))"
      unfolding once_iff at is_char_def by simp
    have 3: "str ''.'' @ c \<in> set (many1 not_space_at (b @ str ''.'' @ c))"
      unfolding many1_iff using ne cl by blast
    have 4: "c \<in> set (exactly 1 (is_char CHR ''.'') (str ''.'' @ c))"
      unfolding once_iff dot is_char_def by simp
    have 5: "[] \<in> set (many1 not_space_at c)"
      unfolding many1_iff using ne cl by simp
    from 1 2 3 4 5
    show "\<exists>r1 \<in> set (many1 not_space_at s). \<exists>r2 \<in> set (exactly 1 (is_char CHR ''@'') r1).
        \<exists>r3 \<in> set (many1 not_space_at r2). \<exists>r4 \<in> set (exactly 1 (is_char CHR ''.'') r3).
          [] \<in> set (many1 not_space_at r4)"
      by blast
  qed
  finally show ?thesis .
qed

text \<open>White space beyond ASCII: a no-break space is trimmed, and it breaks an email.\<close>

lemma nbsp_is_trimmed:
  "trim (str ''1HGCM82633A123456'' @ [0xA0]) = str ''1HGCM82633A123456''"
  by (simp add: trim_def is_space_def str_def)

lemma nbsp_breaks_email: "\<not> regex_test EMAIL_RE (str ''ow'' @ [0xA0] @ str ''ner@example.com'')"
  by (simp add: regex_test_def EMAIL_RE_def exactly_def not_space_at_def is_space_def
      is_char_def str_def)

subsection \<open>The samples\<close>

lemma sample_outside_fields:
  "counter sample_outside = ClaimCounter_stub NoFault"
  "http sample_outside = sample_http"
  "randomUUID sample_outside = str ''3b241101-e2bb-4255-8caf-4136c566a962''"
  "toUpperCase sample_outside = ascii_upper"
  "toLowerCase sample_outside = ascii_lower"
  by (simp_all add: sample_outside_def toUpperCase_def toLowerCase_def fun_eq_iff
      ascii_upper_def ascii_lower_def)

lemma failing_outside_fields:
  "counter failing_outside = ClaimCounter_stub PutRejects"
  "toUpperCase failing_outside = ascii_upper"
  "toLowerCase failing_outside = ascii_lower"
  by (simp_all add: failing_outside_def sample_outside_def toUpperCase_def toLowerCase_def fun_eq_iff
      ascii_upper_def ascii_lower_def)

lemma search_down_outside_fields:
  "counter search_down_outside = ClaimCounter_stub NoFault"
  "http search_down_outside = search_down_http"
  "randomUUID search_down_outside = str ''3b241101-e2bb-4255-8caf-4136c566a962''"
  "toUpperCase search_down_outside = ascii_upper"
  "toLowerCase search_down_outside = ascii_lower"
  by (simp_all add: search_down_outside_def sample_outside_def toUpperCase_def toLowerCase_def fun_eq_iff
      ascii_upper_def ascii_lower_def)

lemma found_outside_fields:
  "http found_outside = found_http"
  "toUpperCase found_outside = ascii_upper"
  "toLowerCase found_outside = ascii_lower"
  by (simp_all add: found_outside_def sample_outside_def toUpperCase_def toLowerCase_def fun_eq_iff
      ascii_upper_def ascii_lower_def)

lemma vin_good: "regex_test VIN_RE (str ''1HGCM82633A123456'')"
  by (simp add: regex_test_def VIN_RE_def exactly_def vin_class_def in_range_def is_char_def
      str_def)

lemma vin_bad: "\<not> regex_test VIN_RE (str ''1HGCM82633A12345I'')"
  by (simp add: regex_test_def VIN_RE_def exactly_def vin_class_def in_range_def is_char_def
      str_def)

lemma email_bad: "\<not> regex_test EMAIL_RE (str ''not-an-email'')"
  by (simp add: regex_test_def EMAIL_RE_def exactly_def not_space_at_def is_space_def
      is_char_def str_def)

lemma email_good: "regex_test EMAIL_RE (str ''Owner@Example.com'')"
  by (simp add: regex_test_def EMAIL_RE_def exactly_def not_space_at_def is_space_def
      is_char_def str_def)

lemma good_valid: "validate (str ''1HGCM82633A123456'') (str ''Owner@Example.com'') = []"
  using vin_good email_good by (simp add: validate_def)

lemma bad_invalid:
  "validate (str ''1HGCM82633A12345I'') (str ''not-an-email'') =
     [str ''VIN must be 17 chars (no I, O, Q).'', str ''Email is invalid.'']"
  using vin_bad email_bad by (simp add: validate_def VIN_MESSAGE_def EMAIL_MESSAGE_def)

lemma content_type_json:
  "toLowerCase ext = ascii_lower \<Longrightarrow> content_type ext (json_request b) = str ''application/json''"
  by (simp add: content_type_def json_request_def headers_get_def or_default_def ascii_lower_def
      str_def)

lemma includes_json: "str_includes (str ''application/json'') (str ''application/json'')"
  by (simp add: str_def)

lemma parse_bad_body:
  assumes "toUpperCase ext = ascii_upper" and "toLowerCase ext = ascii_lower"
  shows "parse_body ext (json_request bad_body) (content_type ext (json_request bad_body)) =
     Inr (str ''1HGCM82633A12345I'', str ''not-an-email'', str ''Warranty'')"
  unfolding content_type_json [OF assms(2)] parse_body_def
  by (simp add: includes_json json_request_def bad_body_def parse_json_def and_then_def js_or_def
      assms(1) trim_def is_space_def ascii_upper_def str_def)

lemma parse_good_body:
  assumes "toUpperCase ext = ascii_upper" and "toLowerCase ext = ascii_lower"
  shows "parse_body ext (json_request good_body) (content_type ext (json_request good_body)) =
     Inr (str ''1HGCM82633A123456'', str ''Owner@Example.com'', str ''Warranty'')"
  unfolding content_type_json [OF assms(2)] parse_body_def
  by (simp add: includes_json json_request_def good_body_def parse_json_def and_then_def js_or_def
      assms(1) trim_def is_space_def ascii_upper_def str_def)

lemma lower_Owner: "ascii_lower (str ''Owner@Example.com'') = str ''owner@example.com''"
  by (simp add: ascii_lower_def str_def)

lemma lower_owner: "ascii_lower (str ''owner@example.com'') = str ''owner@example.com''"
  by (simp add: ascii_lower_def str_def)

lemma upper_vin: "ascii_upper (str ''1HGCM82633A123456'') = str ''1HGCM82633A123456''"
  by (simp add: ascii_upper_def str_def)

lemma cors_json_request:
  "corsHeaders (json_request b) =
     [(''Access-Control-Allow-Origin'', []),
      (''Access-Control-Allow-Methods'', str ''POST, OPTIONS''),
      (''Access-Control-Allow-Headers'', str ''content-type''),
      (''Access-Control-Max-Age'', str ''86400''),
      (''Vary'', str ''Origin'')]"
  by (simp add: corsHeaders_def json_request_def headers_get_def or_default_def allowOrigin_def
      DEV_FALLBACK_STAR_def)

subsection \<open>Validation\<close>

lemma json_fields:
  "rsp_status (json request b status) = status"
  "rsp_body (json request b status) = JsonBody b"
  "rsp_headers (json request b status) =
     (''content-type'', str ''application/json'') # corsHeaders request"
  by (simp_all add: json_def)

lemma fetch_parsed:
  assumes "req_method request = ''POST''"
    and "parse_body ext request (content_type ext request) = Inr (vin, email, category)"
  shows "fetch ext env request w =
     (if validate vin email \<noteq> [] then
        (Inr (json request
               (JObj [(str ''ok'', JBool False), (str ''errors'', JArr (map JStr (validate vin email)))])
               400), w)
      else submit ext env request vin email category w)"
  using assms by (simp add: fetch_def Let_def)


lemma validate_nonempty:
  "validate vin email \<noteq> [] \<longleftrightarrow> \<not> regex_test VIN_RE vin \<or> \<not> regex_test EMAIL_RE email"
  by (simp add: validate_def)

lemma validate_messages:
  "validate vin email =
     (if regex_test VIN_RE vin then [] else [str ''VIN must be 17 chars (no I, O, Q).'']) @
     (if regex_test EMAIL_RE email then [] else [str ''Email is invalid.''])"
  by (simp add: validate_def VIN_MESSAGE_def EMAIL_MESSAGE_def)

lemma messages_differ:
  "str ''VIN must be 17 chars (no I, O, Q).'' \<noteq> str ''Email is invalid.''"
  by (simp add: str_def)

text \<open>
  Claim C6. A \<^verbatim>\<open>POST\<close> whose body was read and whose VIN or email fails its
  pattern is answered with a response of status 400 whose body is
  \<^verbatim>\<open>{ ok: false, errors: [...] }\<close>, the list being the messages of the failed
  checks, VIN first, and not empty; the world is left as it was: no call is made, so
  the counter is not asked for a number, and the persisted store is unchanged.
\<close>

theorem validation_failure_is_400:
  assumes "req_method request = ''POST''"
    and "parse_body ext request (content_type ext request) = Inr (vin, email, category)"
    and "\<not> regex_test VIN_RE vin \<or> \<not> regex_test EMAIL_RE email"
  shows "\<exists>r errors.
           fetch ext env request w = (Inr r, w)
           \<and> rsp_status r = 400
           \<and> rsp_headers r = (''content-type'', str ''application/json'') # corsHeaders request
           \<and> rsp_body r = JsonBody (JObj [(str ''ok'', JBool False), (str ''errors'', JArr (map JStr errors))])
           \<and> errors =
               (if regex_test VIN_RE vin then [] else [str ''VIN must be 17 chars (no I, O, Q).'']) @
               (if regex_test EMAIL_RE email then [] else [str ''Email is invalid.''])
           \<and> errors \<noteq> []
           \<and> calls (snd (fetch ext env request w)) = calls w
           \<and> store (snd (fetch ext env request w)) = store w"
proof -
  define r where
    "r = json request
           (JObj [(str ''ok'', JBool False), (str ''errors'', JArr (map JStr (validate vin email)))])
           400"
  have ne: "validate vin email \<noteq> []" using assms(3) by (simp add: validate_nonempty)
  then have f: "fetch ext env request w = (Inr r, w)"
    using fetch_parsed [OF assms(1) assms(2), of env w] by (simp add: r_def)
  have "rsp_status r = 400
      \<and> rsp_headers r = (''content-type'', str ''application/json'') # corsHeaders request
      \<and> rsp_body r =
          JsonBody (JObj [(str ''ok'', JBool False), (str ''errors'', JArr (map JStr (validate vin email)))])"
    by (simp add: r_def json_fields)
  with f ne validate_messages [of vin email] show ?thesis by auto
qed

theorem validation_failure_is_400_witness:
  "req_method (json_request bad_body) = ''POST''
   \<and> parse_body sample_outside (json_request bad_body)
        (content_type sample_outside (json_request bad_body)) =
       Inr (str ''1HGCM82633A12345I'', str ''not-an-email'', str ''Warranty'')
   \<and> \<not> regex_test VIN_RE (str ''1HGCM82633A12345I'')
   \<and> fetch sample_outside plain_env (json_request bad_body) fresh_world =
       (Inr \<lparr>rsp_status = 400,
             rsp_headers = (''content-type'', str ''application/json'') # corsHeaders (json_request bad_body),
             rsp_body = JsonBody (JObj [(str ''ok'', JBool False),
               (str ''errors'', JArr [JStr (str ''VIN must be 17 chars (no I, O, Q).''),
                                      JStr (str ''Email is invalid.'')])])\<rparr>,
        fresh_world)
   \<and> calls (snd (fetch sample_outside plain_env (json_request bad_body) fresh_world)) = []"
proof -
  have m: "req_method (json_request bad_body) = ''POST''" by (simp add: json_request_def)
  have p: "parse_body sample_outside (json_request bad_body)
        (content_type sample_outside (json_request bad_body)) =
       Inr (str ''1HGCM82633A12345I'', str ''not-an-email'', str ''Warranty'')"
    by (rule parse_bad_body) (simp_all add: sample_outside_fields)
  have v: "\<not> regex_test VIN_RE (str ''1HGCM82633A12345I'')
      \<or> \<not> regex_test EMAIL_RE (str ''not-an-email'')"
    using vin_bad by simp
  obtain r errors where
    "fetch sample_outside plain_env (json_request bad_body) fresh_world = (Inr r, fresh_world)"
    "rsp_status r = 400"
    "rsp_headers r = (''content-type'', str ''application/json'') # corsHeaders (json_request bad_body)"
    "rsp_body r = JsonBody (JObj [(str ''ok'', JBool False), (str ''errors'', JArr (map JStr errors))])"
    "errors =
       (if regex_test VIN_RE (str ''1HGCM82633A12345I'') then []
        else [str ''VIN must be 17 chars (no I, O, Q).'']) @
       (if regex_test EMAIL_RE (str ''not-an-email'') then [] else [str ''Email is invalid.''])"
    using validation_failure_is_400 [OF m p v, of plain_env fresh_world] by blast
  then have "fetch sample_outside plain_env (json_request bad_body) fresh_world =
       (Inr \<lparr>rsp_status = 400,
             rsp_headers = (''content-type'', str ''application/json'') # corsHeaders (json_request bad_body),
             rsp_body = JsonBody (JObj [(str ''ok'', JBool False),
               (str ''errors'', JArr [JStr (str ''VIN must be 17 chars (no I, O, Q).''),
                                      JStr (str ''Email is invalid.'')])])\<rparr>,
        fresh_world)"
    using vin_bad email_bad by (cases r) simp
  with m p vin_bad show ?thesis by (simp add: fresh_world_def)
qed

text \<open>
  Claim C5. On the normalized fields: the VIN \<^verbatim>\<open>1HGCM82633A123456\<close> passes the
  VIN pattern and never draws the VIN message; \<^verbatim>\<open>1HGCM82633A12345I\<close> fails it
  and draws \<^verbatim>\<open>VIN must be 17 chars (no I, O, Q).\<close>; the email
  \<^verbatim>\<open>not-an-email\<close> fails and draws \<^verbatim>\<open>Email is invalid.\<close>; and a \<^verbatim>\<open>POST\<close>
  whose VIN and email both fail is answered with one response of status 400 whose body
  is \<^verbatim>\<open>{ ok: false, errors: [...] }\<close> with both messages, VIN first.
\<close>

theorem validation_boundary:
  "regex_test VIN_RE (str ''1HGCM82633A123456'')
   \<and> str ''VIN must be 17 chars (no I, O, Q).'' \<notin> set (validate (str ''1HGCM82633A123456'') email)
   \<and> \<not> regex_test VIN_RE (str ''1HGCM82633A12345I'')
   \<and> str ''VIN must be 17 chars (no I, O, Q).'' \<in> set (validate (str ''1HGCM82633A12345I'') email)
   \<and> \<not> regex_test EMAIL_RE (str ''not-an-email'')
   \<and> str ''Email is invalid.'' \<in> set (validate vin (str ''not-an-email''))
   \<and> validate (str ''1HGCM82633A12345I'') (str ''not-an-email'') =
       [str ''VIN must be 17 chars (no I, O, Q).'', str ''Email is invalid.'']
   \<and> (req_method request = ''POST''
        \<and> parse_body ext request (content_type ext request) = Inr (v, e, category)
        \<and> \<not> regex_test VIN_RE v \<and> \<not> regex_test EMAIL_RE e \<longrightarrow>
        (\<exists>r. fetch ext env request w = (Inr r, w)
           \<and> rsp_status r = 400
           \<and> rsp_body r =
               JsonBody (JObj [(str ''ok'', JBool False),
                 (str ''errors'', JArr [JStr (str ''VIN must be 17 chars (no I, O, Q).''),
                                        JStr (str ''Email is invalid.'')])])))"
proof -
  have "str ''VIN must be 17 chars (no I, O, Q).'' \<notin> set (validate (str ''1HGCM82633A123456'') email)"
    using vin_good messages_differ by (simp add: validate_messages)
  moreover have
    "str ''VIN must be 17 chars (no I, O, Q).'' \<in> set (validate (str ''1HGCM82633A12345I'') email)"
    using vin_bad by (simp add: validate_messages)
  moreover have "str ''Email is invalid.'' \<in> set (validate vin (str ''not-an-email''))"
    using email_bad by (simp add: validate_messages)
  moreover have "req_method request = ''POST''
        \<and> parse_body ext request (content_type ext request) = Inr (v, e, category)
        \<and> \<not> regex_test VIN_RE v \<and> \<not> regex_test EMAIL_RE e \<longrightarrow>
        (\<exists>r. fetch ext env request w = (Inr r, w)
           \<and> rsp_status r = 400
           \<and> rsp_body r =
               JsonBody (JObj [(str ''ok'', JBool False),
                 (str ''errors'', JArr [JStr (str ''VIN must be 17 chars (no I, O, Q).''),
                                        JStr (str ''Email is invalid.'')])]))"
  proof
    assume a: "req_method request = ''POST''
        \<and> parse_body ext request (content_type ext request) = Inr (v, e, category)
        \<and> \<not> regex_test VIN_RE v \<and> \<not> regex_test EMAIL_RE e"
    then have both: "validate v e =
        [str ''VIN must be 17 chars (no I, O, Q).'', str ''Email is invalid.'']"
      by (simp add: validate_messages)
    have "fetch ext env request w =
        (Inr (json request
               (JObj [(str ''ok'', JBool False), (str ''errors'', JArr (map JStr (validate v e)))])
               400), w)"
      using a fetch_parsed [of request ext v e category env w] both by simp
    then show "\<exists>r. fetch ext env request w = (Inr r, w)
           \<and> rsp_status r = 400
           \<and> rsp_body r =
               JsonBody (JObj [(str ''ok'', JBool False),
                 (str ''errors'', JArr [JStr (str ''VIN must be 17 chars (no I, O, Q).''),
                                        JStr (str ''Email is invalid.'')])])"
      by (simp add: both json_fields)
  qed
  ultimately show ?thesis
    using vin_good vin_bad email_bad bad_invalid by simp
qed

theorem validation_boundary_witness:
  "validate (str ''1HGCM82633A123456'') (str ''Owner@Example.com'') = []
   \<and> validate (str ''1HGCM82633A12345I'') (str ''Owner@Example.com'') =
       [str ''VIN must be 17 chars (no I, O, Q).'']
   \<and> validate (str ''1HGCM82633A123456'') (str ''not-an-email'') = [str ''Email is invalid.'']
   \<and> req_method (json_request bad_body) = ''POST''
   \<and> parse_body sample_outside (json_request bad_body)
        (content_type sample_outside (json_request bad_body)) =
       Inr (str ''1HGCM82633A12345I'', str ''not-an-email'', str ''Warranty'')
   \<and> (\<exists>r. fetch sample_outside plain_env (json_request bad_body) fresh_world = (Inr r, fresh_world)
         \<and> rsp_status r = 400
         \<and> rsp_body r =
             JsonBody (JObj [(str ''ok'', JBool False),
               (str ''errors'', JArr [JStr (str ''VIN must be 17 chars (no I, O, Q).''),
                                      JStr (str ''Email is invalid.'')])]))"
proof -
  have m: "req_method (json_request bad_body) = ''POST''" by (simp add: json_request_def)
  have p: "parse_body sample_outside (json_request bad_body)
        (content_type sample_outside (json_request bad_body)) =
       Inr (str ''1HGCM82633A12345I'', str ''not-an-email'', str ''Warranty'')"
    by (rule parse_bad_body) (simp_all add: sample_outside_fields)
  show ?thesis
    using validation_boundary [of "str ''Owner@Example.com''" "str ''1HGCM82633A123456''"
        "json_request bad_body" sample_outside "str ''1HGCM82633A12345I''" "str ''not-an-email''"
        "str ''Warranty''" plain_env fresh_world]
      m p vin_good vin_bad email_good email_bad
    by (simp add: validate_messages)
qed

subsection \<open>The contact upsert\<close>

lemma hsRequest_world:
  "snd (hsRequest ext c w) = w\<lparr>calls := calls w @ [c]\<rparr>"
  by (simp add: hsRequest_def Let_def split: http_result.splits sum.splits)

lemma hsFind_world:
  "snd (hsFindContactByEmail ext email w) =
     w\<lparr>calls := calls w @ [ContactSearch (toLowerCase ext email)]\<rparr>"
proof (cases "hsRequest ext (ContactSearch (toLowerCase ext email)) w")
  case (Pair r w1)
  with hsRequest_world [of ext "ContactSearch (toLowerCase ext email)" w]
  have "w1 = w\<lparr>calls := calls w @ [ContactSearch (toLowerCase ext email)]\<rparr>" by simp
  with Pair show ?thesis
    by (simp add: hsFindContactByEmail_def Let_def split: sum.splits)
qed

lemma hsCreateTicket_world:
  "snd (hsCreateTicket ext props w) = w\<lparr>calls := calls w @ [TicketCreate props]\<rparr>"
proof (cases "hsRequest ext (TicketCreate props) w")
  case (Pair r w1)
  with hsRequest_world [of ext "TicketCreate props" w]
  have "w1 = w\<lparr>calls := calls w @ [TicketCreate props]\<rparr>" by simp
  with Pair show ?thesis
    by (simp add: hsCreateTicket_def split: sum.splits)
qed

text \<open>
  Claim C9. When \<^verbatim>\<open>hsUpsertContact\<close> is given a token and an email and the lookup
  by that email returns an existing (truthy) contact id, it returns that id and the only
  call it makes is the search: no contact is created. A second submission with the same
  email, from any later state of the world in which the lookup again finds the id,
  resolves to the same id, again with the search as its only call.
\<close>

theorem upsert_idempotent_by_email:
  assumes "is_set (HUBSPOT_TOKEN env)"
    and "email \<noteq> []"
    and "js_truthy existingId"
    and "hsFindContactByEmail ext email w = (Inr existingId, w1)"
    and "hsFindContactByEmail ext email w' = (Inr existingId, w2)"
  shows "hsUpsertContact ext env email props w = (Inr existingId, w1)
       \<and> calls w1 = calls w @ [ContactSearch (toLowerCase ext email)]
       \<and> hsUpsertContact ext env email props w' = (Inr existingId, w2)
       \<and> calls w2 = calls w' @ [ContactSearch (toLowerCase ext email)]"
proof -
  have "w1 = w\<lparr>calls := calls w @ [ContactSearch (toLowerCase ext email)]\<rparr>"
    using hsFind_world [of ext email w] assms(4) by simp
  moreover have "w2 = w'\<lparr>calls := calls w' @ [ContactSearch (toLowerCase ext email)]\<rparr>"
    using hsFind_world [of ext email w'] assms(5) by simp
  ultimately show ?thesis
    using assms by (simp add: hsUpsertContact_def)
qed

lemma found_lookup:
  "hsFindContactByEmail found_outside (str ''owner@example.com'') w =
     (Inr (JStr (str ''77'')),
      w\<lparr>calls := calls w @ [ContactSearch (str ''owner@example.com'')]\<rparr>)"
  unfolding hsFindContactByEmail_def hsRequest_def found_outside_fields lower_owner
  by (simp add: found_http_def resp_ok_def first_result_def Let_def str_def)

theorem upsert_idempotent_by_email_witness:
  "is_set (HUBSPOT_TOKEN plain_env)
   \<and> hsUpsertContact found_outside plain_env (str ''owner@example.com'')
        [(''email'', str ''owner@example.com'')] fresh_world =
       (Inr (JStr (str ''77'')), fresh_world\<lparr>calls := [ContactSearch (str ''owner@example.com'')]\<rparr>)
   \<and> hsUpsertContact found_outside plain_env (str ''owner@example.com'')
        [(''email'', str ''owner@example.com'')]
        (fresh_world\<lparr>calls := [ContactSearch (str ''owner@example.com'')]\<rparr>) =
       (Inr (JStr (str ''77'')),
        fresh_world\<lparr>calls := [ContactSearch (str ''owner@example.com''),
                               ContactSearch (str ''owner@example.com'')]\<rparr>)"
proof -
  have tok: "is_set (HUBSPOT_TOKEN plain_env)" by (simp add: plain_env_def is_set_def str_def)
  have ne: "str ''owner@example.com'' \<noteq> []" by (simp add: str_def)
  have tr: "js_truthy (JStr (str ''77''))" by (simp add: str_def)
  show ?thesis
    using upsert_idempotent_by_email [OF tok ne tr
        found_lookup [of fresh_world]
        found_lookup [of "fresh_world\<lparr>calls := [ContactSearch (str ''owner@example.com'')]\<rparr>"],
        of "[(''email'', str ''owner@example.com'')]"] tok
    by (simp add: fresh_world_def)
qed

subsection \<open>The steps after the allocation\<close>

lemma ticket_step_number:
  "\<exists>ticketId. ticket_step ext env vin email category (JNum k) w =
     (ticketId,
      w\<lparr>calls := calls w @
         [TicketCreate (ticketProps ext env vin email category
            (numberToString (bigNumberToString ext) k))]\<rparr>)"
proof (cases "hsCreateTicket ext
    (ticketProps ext env vin email category (numberToString (bigNumberToString ext) k)) w")
  case (Pair r w1)
  with hsCreateTicket_world
    [of ext "ticketProps ext env vin email category (numberToString (bigNumberToString ext) k)" w]
  have "w1 = w\<lparr>calls := calls w @
      [TicketCreate (ticketProps ext env vin email category
         (numberToString (bigNumberToString ext) k))]\<rparr>"
    by simp
  with Pair show ?thesis by (cases r) (simp_all add: ticket_step_def)
qed

lemma sendEmail_world:
  assumes "is_set (EMAIL_API_KEY env)" and "is_set (FROM_EMAIL env)"
  shows "snd (sendEmail ext env to (FROM_EMAIL env) subject w) =
     w\<lparr>calls := calls w @
        [EmailSend (or_default (EMAIL_API_ENDPOINT env) (str ''https://api.brevo.com/v3/smtp/email''))
           (or_default (FROM_EMAIL env) []) to subject]\<rparr>"
  using assms by (simp add: sendEmail_def Let_def split: http_result.splits)

lemma email_step_skipped:
  "\<not> emailConfigured env \<Longrightarrow> email_step ext env email claimNumber w = (Inr (str ''skipped''), w)"
  by (simp add: email_step_def)

lemma email_step_sent:
  assumes "emailConfigured env" and "js_String (bigNumberToString ext) claimNumber = Inr cn"
    and "sendEmail ext env email (FROM_EMAIL env) (emailSubject cn) w = (Inr u, w')"
  shows "email_step ext env email claimNumber w = (Inr (str ''sent''), w')"
  using assms by (simp add: email_step_def)

lemma email_step_failed:
  assumes "emailConfigured env" and "js_String (bigNumberToString ext) claimNumber = Inr cn"
    and "sendEmail ext env email (FROM_EMAIL env) (emailSubject cn) w = (Inl e, w')"
  shows "email_step ext env email claimNumber w = (Inr (str ''failed''), w')"
  using assms by (simp add: email_step_def)

lemma email_step_number:
  "\<exists>emailStatus. email_step ext env email (JNum k) w =
     (Inr emailStatus,
      w\<lparr>calls := calls w @
         (if emailConfigured env then
            [EmailSend (or_default (EMAIL_API_ENDPOINT env) (str ''https://api.brevo.com/v3/smtp/email''))
               (or_default (FROM_EMAIL env) []) email
               (emailSubject (numberToString (bigNumberToString ext) k))]
          else [])\<rparr>)"
proof (cases "emailConfigured env")
  case False
  then show ?thesis by (simp add: email_step_skipped)
next
  case True
  then have k: "is_set (EMAIL_API_KEY env)" and f: "is_set (FROM_EMAIL env)"
    by (simp_all add: emailConfigured_def)
  obtain r w1 where s: "sendEmail ext env email (FROM_EMAIL env)
      (emailSubject (numberToString (bigNumberToString ext) k)) w = (r, w1)"
    by (cases "sendEmail ext env email (FROM_EMAIL env)
      (emailSubject (numberToString (bigNumberToString ext) k)) w") blast
  have "w1 = w\<lparr>calls := calls w @
        [EmailSend (or_default (EMAIL_API_ENDPOINT env) (str ''https://api.brevo.com/v3/smtp/email''))
           (or_default (FROM_EMAIL env) []) email
           (emailSubject (numberToString (bigNumberToString ext) k))]\<rparr>"
    using sendEmail_world [OF k f, of ext email "emailSubject (numberToString (bigNumberToString ext) k)" w] s
    by simp
  with s True show ?thesis by (cases r) (simp_all add: email_step_def)
qed

text \<open>
  Claim C7. For a \<^verbatim>\<open>POST\<close> that passed validation and was allocated the claim
  number \<open>k\<close>: if the contact upsert throws, \<^verbatim>\<open>fetch\<close> still answers with a response
  of status 200 whose body has \<^verbatim>\<open>ok: true\<close>, \<^verbatim>\<open>claimNumber: k\<close> and
  \<^verbatim>\<open>contactId: null\<close>; after the failed upsert the ticket creation is attempted, and
  the email send is attempted whenever email is configured.
\<close>

theorem contact_failure_is_isolated:
  assumes "req_method request = ''POST''"
    and "parse_body ext request (content_type ext request) = Inr (vin, email, category)"
    and "validate vin email = []"
    and "allocate ext w = (Inr (JNum k), w1)"
    and "hsUpsertContact ext env (toLowerCase ext email)
           [(''email'', toLowerCase ext email)] w1 = (Inl e, w2)"
  shows "\<exists>r ticketId emailStatus w'.
           fetch ext env request w = (Inr r, w')
           \<and> rsp_status r = 200
           \<and> rsp_headers r = (''content-type'', str ''application/json'') # corsHeaders request
           \<and> rsp_body r =
               JsonBody
                 (JObj [(str ''ok'', JBool True),
                        (str ''claimNumber'', JNum k),
                        (str ''ref'', JStr (randomUUID ext)),
                        (str ''contactId'', JNull),
                        (str ''ticketId'', ticketId),
                        (str ''emailStatus'', JStr emailStatus),
                        (str ''message'', JStr (message_for emailStatus))])
           \<and> calls w' =
               calls w2 @
               TicketCreate (ticketProps ext env vin email category
                 (numberToString (bigNumberToString ext) k)) #
               (if emailConfigured env then
                  [EmailSend (or_default (EMAIL_API_ENDPOINT env) (str ''https://api.brevo.com/v3/smtp/email''))
                     (or_default (FROM_EMAIL env) []) email
                     (emailSubject (numberToString (bigNumberToString ext) k))]
                else [])"
proof -
  define cn where "cn = numberToString (bigNumberToString ext) k"
  have c: "contact_step ext env email w1 = (JNull, w2)"
    using assms(5) by (simp add: contact_step_def)
  define w3 where
    "w3 = w2\<lparr>calls := calls w2 @ [TicketCreate (ticketProps ext env vin email category cn)]\<rparr>"
  obtain ticketId where
    t: "ticket_step ext env vin email category (JNum k) w2 = (ticketId, w3)"
    using ticket_step_number [of ext env vin email category k w2] unfolding w3_def cn_def by blast
  define w4 where
    "w4 = w3\<lparr>calls := calls w3 @
              (if emailConfigured env then
                 [EmailSend (or_default (EMAIL_API_ENDPOINT env) (str ''https://api.brevo.com/v3/smtp/email''))
                    (or_default (FROM_EMAIL env) []) email (emailSubject cn)]
               else [])\<rparr>"
  obtain emailStatus where
    m: "email_step ext env email (JNum k) w3 = (Inr emailStatus, w4)"
    using email_step_number [of ext env email k w3] unfolding w4_def cn_def by blast
  define r where
    "r = json request
           (JObj [(str ''ok'', JBool True),
                  (str ''claimNumber'', JNum k),
                  (str ''ref'', JStr (randomUUID ext)),
                  (str ''contactId'', JNull),
                  (str ''ticketId'', ticketId),
                  (str ''emailStatus'', JStr emailStatus),
                  (str ''message'', JStr (message_for emailStatus))])
           200"
  have "fetch ext env request w = submit ext env request vin email category w"
    using fetch_parsed [OF assms(1) assms(2)] assms(3) by simp
  then have f: "fetch ext env request w = (Inr r, w4)"
    using assms(4) c t m by (simp add: submit_def r_def)
  have b: "rsp_status r = 200
      \<and> rsp_headers r = (''content-type'', str ''application/json'') # corsHeaders request
      \<and> rsp_body r =
               JsonBody
                 (JObj [(str ''ok'', JBool True),
                        (str ''claimNumber'', JNum k),
                        (str ''ref'', JStr (randomUUID ext)),
                        (str ''contactId'', JNull),
                        (str ''ticketId'', ticketId),
                        (str ''emailStatus'', JStr emailStatus),
                        (str ''message'', JStr (message_for emailStatus))])"
    by (simp add: r_def json_fields)
  have "calls w4 =
               calls w2 @
               TicketCreate (ticketProps ext env vin email category cn) #
               (if emailConfigured env then
                  [EmailSend (or_default (EMAIL_API_ENDPOINT env) (str ''https://api.brevo.com/v3/smtp/email''))
                     (or_default (FROM_EMAIL env) []) email (emailSubject cn)]
                else [])"
    by (simp add: w4_def w3_def)
  with f b show ?thesis unfolding cn_def by blast
qed

subsection \<open>The counter binding\<close>

lemma stub_ok:
  "ClaimCounter_stub NoFault st =
     (StubBody (Some (JObj [(str ''n'', JNum (js_add (current (st ''n'')) 1))])),
      st(''n'' \<mapsto> js_add (current (st ''n'')) 1))"
  by (simp add: ClaimCounter_stub_def fetch_next_ok body_json_def)

lemma stub_put_rejects: "ClaimCounter_stub PutRejects st = (StubRejects, st)"
  by (simp add: ClaimCounter_stub_def fetch_next_put_rejects)

lemma allocate_fresh:
  assumes "counter ext = ClaimCounter_stub NoFault"
  shows "allocate ext fresh_world =
     (Inr (JNum 100001), \<lparr>store = [''n'' \<mapsto> 100001], calls = [CounterFetch]\<rparr>)"
  using assms
  by (simp add: allocate_def fresh_world_def stub_ok current_def seed_def js_add_exact)

lemma show_500: "show_nat 500 = str ''500''"
  by (simp add: show_nat.simps str_def)

lemma show_100001: "numberToString ex 100001 = str ''100001''"
  by (simp add: numberToString_def show_int_def show_nat.simps str_def)

lemma upsert_search_down:
  "hsUpsertContact search_down_outside mail_env (str ''owner@example.com'')
      [(''email'', str ''owner@example.com'')] w =
     (Inl (Error (str ''HubSpot 500: HTTP 500'')),
      w\<lparr>calls := calls w @ [ContactSearch (str ''owner@example.com'')]\<rparr>)"
proof -
  have tok: "is_set (HUBSPOT_TOKEN mail_env)"
    by (simp add: mail_env_def plain_env_def is_set_def str_def)
  have ne: "str ''owner@example.com'' \<noteq> []" by (simp add: str_def)
  have msg: "str ''HubSpot '' @ str ''500'' @ str '': '' @ str ''HTTP '' @ str ''500'' =
      str ''HubSpot 500: HTTP 500''"
    by (simp add: str_def)
  have "hsFindContactByEmail search_down_outside (str ''owner@example.com'') w =
     (Inl (Error (str ''HubSpot 500: HTTP 500'')),
      w\<lparr>calls := calls w @ [ContactSearch (str ''owner@example.com'')]\<rparr>)"
    unfolding hsFindContactByEmail_def hsRequest_def search_down_outside_fields lower_owner
    by (simp add: search_down_http_def resp_ok_def js_or_def numberToString_def show_int_def
        show_500 msg Let_def)
  with tok ne show ?thesis by (simp add: hsUpsertContact_def)
qed

theorem contact_failure_is_isolated_witness:
  "req_method (json_request good_body) = ''POST''
   \<and> validate (str ''1HGCM82633A123456'') (str ''Owner@Example.com'') = []
   \<and> allocate search_down_outside fresh_world =
       (Inr (JNum 100001), \<lparr>store = [''n'' \<mapsto> 100001], calls = [CounterFetch]\<rparr>)
   \<and> fst (hsUpsertContact search_down_outside mail_env (str ''owner@example.com'')
        [(''email'', str ''owner@example.com'')]
        \<lparr>store = [''n'' \<mapsto> 100001], calls = [CounterFetch]\<rparr>) =
       Inl (Error (str ''HubSpot 500: HTTP 500''))
   \<and> (\<exists>r ticketId emailStatus w'.
         fetch search_down_outside mail_env (json_request good_body) fresh_world = (Inr r, w')
         \<and> rsp_status r = 200
         \<and> rsp_body r =
             JsonBody
               (JObj [(str ''ok'', JBool True),
                      (str ''claimNumber'', JNum 100001),
                      (str ''ref'', JStr (str ''3b241101-e2bb-4255-8caf-4136c566a962'')),
                      (str ''contactId'', JNull),
                      (str ''ticketId'', ticketId),
                      (str ''emailStatus'', JStr emailStatus),
                      (str ''message'', JStr (message_for emailStatus))])
         \<and> calls w' =
             [CounterFetch, ContactSearch (str ''owner@example.com''),
              TicketCreate (ticketProps search_down_outside mail_env (str ''1HGCM82633A123456'')
                (str ''Owner@Example.com'') (str ''Warranty'') (str ''100001'')),
              EmailSend (str ''https://api.brevo.com/v3/smtp/email'') (str ''no-reply@example.com'')
                (str ''Owner@Example.com'') (emailSubject (str ''100001''))])"
proof -
  have m: "req_method (json_request good_body) = ''POST''" by (simp add: json_request_def)
  have p: "parse_body search_down_outside (json_request good_body)
        (content_type search_down_outside (json_request good_body)) =
       Inr (str ''1HGCM82633A123456'', str ''Owner@Example.com'', str ''Warranty'')"
    by (rule parse_good_body) (simp_all add: search_down_outside_fields)
  have a: "allocate search_down_outside fresh_world =
       (Inr (JNum 100001), \<lparr>store = [''n'' \<mapsto> 100001], calls = [CounterFetch]\<rparr>)"
    by (rule allocate_fresh) (simp add: search_down_outside_fields)
  have l: "toLowerCase search_down_outside (str ''Owner@Example.com'') = str ''owner@example.com''"
    by (simp add: search_down_outside_fields lower_Owner)
  have u: "hsUpsertContact search_down_outside mail_env
        (toLowerCase search_down_outside (str ''Owner@Example.com''))
        [(''email'', toLowerCase search_down_outside (str ''Owner@Example.com''))]
        \<lparr>store = [''n'' \<mapsto> 100001], calls = [CounterFetch]\<rparr> =
      (Inl (Error (str ''HubSpot 500: HTTP 500'')),
       \<lparr>store = [''n'' \<mapsto> 100001],
        calls = [CounterFetch, ContactSearch (str ''owner@example.com'')]\<rparr>)"
    unfolding l by (simp add: upsert_search_down)
  have cfg: "emailConfigured mail_env"
    by (simp add: emailConfigured_def mail_env_def is_set_def str_def)
  have ep: "or_default (EMAIL_API_ENDPOINT mail_env) (str ''https://api.brevo.com/v3/smtp/email'') =
      str ''https://api.brevo.com/v3/smtp/email''"
    by (simp add: mail_env_def or_default_def)
  have fr: "or_default (FROM_EMAIL mail_env) [] = str ''no-reply@example.com''"
    by (simp add: mail_env_def or_default_def str_def)
  show ?thesis
    using contact_failure_is_isolated [OF m p good_valid a u] m good_valid a
    by (simp add: upsert_search_down cfg ep fr show_100001 search_down_outside_fields) blast
qed

subsection \<open>A failing allocation\<close>

lemma allocate_fails:
  assumes "fst (counter ext (store w)) = StubRejects \<or> fst (counter ext (store w)) = StubBody None"
  shows "fst (allocate ext w) =
           Inl (if fst (counter ext (store w)) = StubRejects then Rejected else SyntaxError)
         \<and> calls (snd (allocate ext w)) = calls w @ [CounterFetch]"
proof (cases "counter ext (store w)")
  case (Pair reply st')
  with assms show ?thesis by (auto simp add: allocate_def)
qed

text \<open>
  Claim C4, as amended. For a \<^verbatim>\<open>POST\<close> that passed validation: if the call to the
  counter rejects or its body is not JSON, \<^verbatim>\<open>fetch\<close> produces no response of its
  own (no status, no JSON body): the exception leaves the handler uncaught. The call to
  the counter is the only call made, so no contact upsert, ticket creation or email
  send is attempted and no claim number is bound.
\<close>

theorem allocation_failure_throws:
  assumes "req_method request = ''POST''"
    and "parse_body ext request (content_type ext request) = Inr (vin, email, category)"
    and "validate vin email = []"
    and "fst (counter ext (store w)) = StubRejects \<or> fst (counter ext (store w)) = StubBody None"
  shows "fst (fetch ext env request w) =
           Inl (if fst (counter ext (store w)) = StubRejects then Rejected else SyntaxError)
         \<and> calls (snd (fetch ext env request w)) = calls w @ [CounterFetch]"
proof -
  have f: "fetch ext env request w = submit ext env request vin email category w"
    using fetch_parsed [OF assms(1) assms(2)] assms(3) by simp
  obtain e w1 where a: "allocate ext w = (Inl e, w1)"
    using allocate_fails [OF assms(4)] by (cases "allocate ext w") auto
  then have "submit ext env request vin email category w = (Inl e, w1)"
    by (simp add: submit_def)
  with f a allocate_fails [OF assms(4)] show ?thesis by simp
qed

lemma failing_counter: "counter failing_outside st = (StubRejects, st)"
  by (simp add: failing_outside_fields stub_put_rejects)

theorem allocation_failure_throws_witness:
  "req_method (json_request good_body) = ''POST''
   \<and> validate (str ''1HGCM82633A123456'') (str ''Owner@Example.com'') = []
   \<and> fst (counter failing_outside (store fresh_world)) = StubRejects
   \<and> fst (fetch failing_outside mail_env (json_request good_body) fresh_world) = Inl Rejected
   \<and> calls (snd (fetch failing_outside mail_env (json_request good_body) fresh_world)) = [CounterFetch]"
proof -
  have m: "req_method (json_request good_body) = ''POST''" by (simp add: json_request_def)
  have p: "parse_body failing_outside (json_request good_body)
        (content_type failing_outside (json_request good_body)) =
       Inr (str ''1HGCM82633A123456'', str ''Owner@Example.com'', str ''Warranty'')"
    by (rule parse_good_body) (simp_all add: failing_outside_fields)
  have c: "fst (counter failing_outside (store fresh_world)) = StubRejects
      \<or> fst (counter failing_outside (store fresh_world)) = StubBody None"
    by (simp add: failing_counter)
  show ?thesis
    using allocation_failure_throws [OF m p good_valid c, of mail_env] m good_valid
    by (simp add: failing_counter fresh_world_def)
qed

text \<open>
  Claim C4 as stated fails: with a counter whose storage rejects the write, a valid
  submission does not get a structured JSON response with a 5xx status from the handler;
  the handler throws.
\<close>

theorem allocation_failure_is_no_json_response:
  "fst (fetch failing_outside plain_env (json_request good_body) fresh_world) = Inl Rejected"
proof -
  have m: "req_method (json_request good_body) = ''POST''" by (simp add: json_request_def)
  have p: "parse_body failing_outside (json_request good_body)
        (content_type failing_outside (json_request good_body)) =
       Inr (str ''1HGCM82633A123456'', str ''Owner@Example.com'', str ''Warranty'')"
    by (rule parse_good_body) (simp_all add: failing_outside_fields)
  have "fetch failing_outside plain_env (json_request good_body) fresh_world =
      submit failing_outside plain_env (json_request good_body)
        (str ''1HGCM82633A123456'') (str ''Owner@Example.com'') (str ''Warranty'') fresh_world"
    using fetch_parsed [OF m p] good_valid by simp
  then show ?thesis
    by (simp add: submit_def allocate_def failing_counter)
qed

subsection \<open>When the email is sent\<close>

lemma email_gate_needs_endpoint:
  "EMAIL_API_ENDPOINT env = None \<Longrightarrow>
     email_step ext env email claimNumber w = (Inr (str ''skipped''), w)"
  by (simp add: email_step_def emailConfigured_def is_set_def)

lemma sample_contact:
  "contact_step sample_outside default_endpoint_env (str ''Owner@Example.com'') w =
     (JStr (str ''501''),
      w\<lparr>calls := calls w @
         [ContactSearch (str ''owner@example.com''),
          ContactCreate [(''email'', str ''owner@example.com'')]]\<rparr>)"
proof -
  have tok: "is_set (HUBSPOT_TOKEN default_endpoint_env)"
    by (simp add: default_endpoint_env_def mail_env_def plain_env_def is_set_def str_def)
  have ne: "str ''owner@example.com'' \<noteq> []" by (simp add: str_def)
  have find: "hsFindContactByEmail sample_outside (str ''owner@example.com'') w =
      (Inr JNull, w\<lparr>calls := calls w @ [ContactSearch (str ''owner@example.com'')]\<rparr>)"
    unfolding hsFindContactByEmail_def hsRequest_def sample_outside_fields lower_owner
    by (simp add: sample_http_def resp_ok_def first_result_def Let_def)
  have create: "hsCreateContact sample_outside [(''email'', str ''owner@example.com'')]
        (w\<lparr>calls := calls w @ [ContactSearch (str ''owner@example.com'')]\<rparr>) =
      (Inr (JStr (str ''501'')),
       w\<lparr>calls := calls w @
          [ContactSearch (str ''owner@example.com''),
           ContactCreate [(''email'', str ''owner@example.com'')]]\<rparr>)"
    unfolding hsCreateContact_def hsRequest_def sample_outside_fields
    by (simp add: sample_http_def resp_ok_def js_or_def Let_def str_def)
  have t: "str ''501'' \<noteq> []" by (simp add: str_def)
  show ?thesis
    unfolding contact_step_def sample_outside_fields lower_Owner
    by (simp add: hsUpsertContact_def tok ne find sample_outside_fields lower_owner create t)
qed

lemma sample_ticket:
  "ticket_step sample_outside env vin email category (JNum 100001) w =
     (JStr (str ''501''),
      w\<lparr>calls := calls w @
         [TicketCreate (ticketProps sample_outside env vin email category (str ''100001''))]\<rparr>)"
  unfolding ticket_step_def hsCreateTicket_def hsRequest_def sample_outside_fields
  by (simp add: show_100001 sample_http_def resp_ok_def js_or_def Let_def str_def)

text \<open>
  Claim C8, at the input where the code departs from it. Email is enabled, the API key
  and the sender are set and \<^verbatim>\<open>EMAIL_API_ENDPOINT\<close> is left unset (the header
  comment and \<^verbatim>\<open>sendEmail\<close> give it a default). The handler answers
  \<^verbatim>\<open>emailStatus: "skipped"\<close> and makes no call to Brevo, although
  \<^verbatim>\<open>sendEmail\<close> itself, called with this environment, sends to the default
  endpoint and succeeds.
\<close>

theorem unset_endpoint_skips_mail:
  "EMAIL_ENABLED default_endpoint_env = Some (str ''true'')
   \<and> EMAIL_API_KEY default_endpoint_env = Some (str ''key'')
   \<and> FROM_EMAIL default_endpoint_env = Some (str ''no-reply@example.com'')
   \<and> EMAIL_API_ENDPOINT default_endpoint_env = None
   \<and> fetch sample_outside default_endpoint_env (json_request good_body) fresh_world =
       (Inr \<lparr>rsp_status = 200,
             rsp_headers =
               (''content-type'', str ''application/json'') # corsHeaders (json_request good_body),
             rsp_body =
               JsonBody
                 (JObj [(str ''ok'', JBool True),
                        (str ''claimNumber'', JNum 100001),
                        (str ''ref'', JStr (str ''3b241101-e2bb-4255-8caf-4136c566a962'')),
                        (str ''contactId'', JStr (str ''501'')),
                        (str ''ticketId'', JStr (str ''501'')),
                        (str ''emailStatus'', JStr (str ''skipped'')),
                        (str ''message'',
                           JStr (str ''Submitted. (Email not configured in this environment.)''))])\<rparr>,
        \<lparr>store = [''n'' \<mapsto> 100001],
         calls =
           [CounterFetch, ContactSearch (str ''owner@example.com''),
            ContactCreate [(''email'', str ''owner@example.com'')],
            TicketCreate (ticketProps sample_outside default_endpoint_env (str ''1HGCM82633A123456'')
              (str ''Owner@Example.com'') (str ''Warranty'') (str ''100001''))]\<rparr>)
   \<and> sendEmail sample_outside default_endpoint_env (str ''Owner@Example.com'')
        (FROM_EMAIL default_endpoint_env) (emailSubject (str ''100001'')) fresh_world =
       (Inr (),
        \<lparr>store = Map.empty,
         calls = [EmailSend (str ''https://api.brevo.com/v3/smtp/email'') (str ''no-reply@example.com'')
                    (str ''Owner@Example.com'') (emailSubject (str ''100001''))]\<rparr>)"
proof -
  have m: "req_method (json_request good_body) = ''POST''" by (simp add: json_request_def)
  have p: "parse_body sample_outside (json_request good_body)
        (content_type sample_outside (json_request good_body)) =
       Inr (str ''1HGCM82633A123456'', str ''Owner@Example.com'', str ''Warranty'')"
    by (rule parse_good_body) (simp_all add: sample_outside_fields)
  have f: "fetch sample_outside default_endpoint_env (json_request good_body) fresh_world =
      submit sample_outside default_endpoint_env (json_request good_body)
        (str ''1HGCM82633A123456'') (str ''Owner@Example.com'') (str ''Warranty'') fresh_world"
    using fetch_parsed [OF m p] good_valid by simp
  have a: "allocate sample_outside fresh_world =
     (Inr (JNum 100001), \<lparr>store = [''n'' \<mapsto> 100001], calls = [CounterFetch]\<rparr>)"
    by (rule allocate_fresh) (simp add: sample_outside_fields)
  have e: "EMAIL_API_ENDPOINT default_endpoint_env = None"
    by (simp add: default_endpoint_env_def)
  have msg: "message_for (str ''skipped'') =
      str ''Submitted. (Email not configured in this environment.)''"
    by (simp add: message_for_def str_def)
  have s: "submit sample_outside default_endpoint_env (json_request good_body)
        (str ''1HGCM82633A123456'') (str ''Owner@Example.com'') (str ''Warranty'') fresh_world =
       (Inr (json (json_request good_body)
              (JObj [(str ''ok'', JBool True),
                     (str ''claimNumber'', JNum 100001),
                     (str ''ref'', JStr (str ''3b241101-e2bb-4255-8caf-4136c566a962'')),
                     (str ''contactId'', JStr (str ''501'')),
                     (str ''ticketId'', JStr (str ''501'')),
                     (str ''emailStatus'', JStr (str ''skipped'')),
                     (str ''message'',
                        JStr (str ''Submitted. (Email not configured in this environment.)''))])
              200),
        \<lparr>store = [''n'' \<mapsto> 100001],
         calls =
           [CounterFetch, ContactSearch (str ''owner@example.com''),
            ContactCreate [(''email'', str ''owner@example.com'')],
            TicketCreate (ticketProps sample_outside default_endpoint_env (str ''1HGCM82633A123456'')
              (str ''Owner@Example.com'') (str ''Warranty'') (str ''100001''))]\<rparr>)"
    unfolding submit_def
    by (simp add: a sample_contact sample_ticket email_gate_needs_endpoint [OF e] msg
        sample_outside_fields)
  have d: "sendEmail sample_outside default_endpoint_env (str ''Owner@Example.com'')
        (FROM_EMAIL default_endpoint_env) (emailSubject (str ''100001'')) fresh_world =
       (Inr (),
        \<lparr>store = Map.empty,
         calls = [EmailSend (str ''https://api.brevo.com/v3/smtp/email'') (str ''no-reply@example.com'')
                    (str ''Owner@Example.com'') (emailSubject (str ''100001''))]\<rparr>)"
    unfolding sendEmail_def sample_outside_fields
    by (simp add: default_endpoint_env_def mail_env_def plain_env_def is_set_def
        or_default_def sample_http_def resp_ok_def fresh_world_def Let_def str_def)
  show ?thesis
    using f s d by (simp add: default_endpoint_env_def mail_env_def plain_env_def json_def)
qed

theorem unset_endpoint_skips_mail_witness:
  "(case fst (fetch sample_outside default_endpoint_env (json_request good_body) fresh_world) of
      Inr r \<Rightarrow>
        rsp_status r = 200
        \<and> (case rsp_body r of
             JsonBody v \<Rightarrow> js_prop v ''emailStatus'' = JStr (str ''skipped'')
           | other \<Rightarrow> False)
    | Inl e \<Rightarrow> False)
   \<and> calls (snd (fetch sample_outside default_endpoint_env (json_request good_body) fresh_world)) =
       [CounterFetch, ContactSearch (str ''owner@example.com''),
        ContactCreate [(''email'', str ''owner@example.com'')],
        TicketCreate (ticketProps sample_outside default_endpoint_env (str ''1HGCM82633A123456'')
          (str ''Owner@Example.com'') (str ''Warranty'') (str ''100001''))]"
  using unset_endpoint_skips_mail by (simp add: str_def)

subsection \<open>Bodies that cannot be read\<close>












end
